theory Spec2Isabelle
  imports Complex_Main "HOL-Library.Word"
begin

section \<open>Values that cross the boundary of the two services\<close>

text \<open>
  The services \<^verbatim>\<open>ipnsUpdater.ts\<close> and \<^verbatim>\<open>ipfsUploader.ts\<close> are asynchronous
  TypeScript functions around \<^verbatim>\<open>fetch\<close>, the Helia client and the libp2p/ipns
  libraries. Each function is embedded as a function from the log of external calls made so
  far to its result and the extended log. What the outside world answers is read from an
  environment \<open>env\<close>, whose answers may depend on everything that happened before.
  An awaited call that rejects and a statement that throws are both \<open>Inl\<close> of the thrown
  value. Console output is part of the log; its texts are given without the emoji that
  prefix them in the source.
\<close>

type_synonym bytes = "8 word list"

text \<open>A thrown JavaScript value: an \<^verbatim>\<open>Error\<close> with its message, or anything else.\<close>

datatype exn = Error string | Thrown

text \<open>\<^verbatim>\<open>error instanceof Error ? error.message : dflt\<close>\<close>

fun errorMessage :: "exn \<Rightarrow> string \<Rightarrow> string" where
  "errorMessage (Error message) dflt = message"
| "errorMessage Thrown dflt = dflt"

text \<open>A value produced by \<^verbatim>\<open>JSON.parse\<close> (what \<^verbatim>\<open>response.json()\<close> resolves to).\<close>

datatype json =
    JNull
  | JBool bool
  | JNum rat
  | JStr string
  | JArr "json list"
  | JObj "(string \<times> json) list"

datatype form_value = FormBlob string string string | FormString string

record request =
  httpMethod :: string
  url :: string
  headers :: "(string \<times> string) list"
  body :: "(string \<times> form_value) list option"

record response =
  ok :: bool
  status :: nat
  headersGet :: "string \<Rightarrow> string option"
  bodyText :: "exn + string"
  bodyJson :: "exn + json"

text \<open>The parsed key object of \<^verbatim>\<open>@libp2p/crypto\<close>: its \<^verbatim>\<open>type\<close> tag, its
  \<^verbatim>\<open>publicKey\<close> object (algorithm and raw bytes) and its private bytes.\<close>

record PublicKey =
  algorithm :: string
  raw :: bytes

record PrivateKey =
  keyType :: string
  publicKey :: PublicKey
  privateRaw :: bytes

datatype cid = CID bytes
datatype IPNSRecord = IPNSRecord bytes
datatype helia = Helia nat

datatype level = Log | Warn | Err
datatype log_arg = S string | X exn | J json

datatype event =
    Fetch request
  | Console level "log_arg list"
  | CreateHelia
  | StopHelia helia
  | RoutingPut helia bytes bytes
  | CreateIPNSRecord PrivateKey cid nat nat nat

type_synonym 'a io = "event list \<Rightarrow> 'a \<times> event list"

text \<open>
  The environment. The first six fields are the outside world (network, clock, Helia
  node, and the signing of a record, which reads the clock); an answer is a function of
  the log so far. The others are the pure library functions the services import; the
  ones that can throw return \<open>Inl\<close>. \<open>toStr\<close> is the string coercion of a template
  literal.
  \<open>peerIdCidBase36 E pub\<close> stands for
  \<^verbatim>\<open>peerIdFromPrivateKey(key).toCID().toString(base36)\<close>, which libp2p computes from
  \<^verbatim>\<open>key.publicKey\<close>, the public half of the key.
\<close>

record env =
  fetch :: "event list \<Rightarrow> request \<Rightarrow> exn + response"
  dateNow :: "event list \<Rightarrow> nat"
  createHeliaHTTP :: "event list \<Rightarrow> exn + helia"
  heliaStop :: "event list \<Rightarrow> helia \<Rightarrow> exn option"
  routingPut :: "event list \<Rightarrow> helia \<Rightarrow> bytes \<Rightarrow> bytes \<Rightarrow> exn option"
  createIPNSRecord :: "event list \<Rightarrow> PrivateKey \<Rightarrow> cid \<Rightarrow> nat \<Rightarrow> nat \<Rightarrow> nat \<Rightarrow> exn + IPNSRecord"
  uint8ArrayFromString :: "string \<Rightarrow> exn + bytes"
  privateKeyFromProtobuf :: "bytes \<Rightarrow> exn + PrivateKey"
  peerIdCidBase36 :: "PublicKey \<Rightarrow> string"
  cidParse :: "string \<Rightarrow> exn + cid"
  marshalIPNSRecord :: "IPNSRecord \<Rightarrow> exn + bytes"
  toMultihash :: "PublicKey \<Rightarrow> exn + bytes"
  multihashToIPNSRoutingKey :: "bytes \<Rightarrow> exn + bytes"
  jsonStringify :: "nat \<Rightarrow> json \<Rightarrow> exn + string"
  toStr :: "json option \<Rightarrow> string"

section \<open>Strings\<close>

text \<open>\<^verbatim>\<open>String(n)\<close> for a status code.\<close>

definition digit :: "nat \<Rightarrow> char" where
  "digit n = ''0123456789'' ! n"

function numberToString :: "nat \<Rightarrow> string" where
  "numberToString n = (if n < 10 then [digit n] else numberToString (n div 10) @ [digit (n mod 10)])"
  by pat_completeness auto
termination
  by (relation "measure id") auto

declare numberToString.simps [simp del]

text \<open>\<^verbatim>\<open>String.prototype.trim\<close> on a header value, whose characters are single bytes:
  tab, line feed, vertical tab, form feed, carriage return, space, no-break space.\<close>

definition isWhiteSpace :: "char \<Rightarrow> bool" where
  "isWhiteSpace c = (of_char c \<in> {9, 10, 11, 12, 13, 32, 160 :: nat})"

definition trim :: "string \<Rightarrow> string" where
  "trim s = rev (dropWhile isWhiteSpace (rev (dropWhile isWhiteSpace s)))"

section \<open>ipnsUpdater.ts: names and resolution\<close>

record Result =
  success :: bool
  error :: "string option"

record IPNSUpdateResult = Result +
  ipnsName :: "string option"

record IPNSResolveResult = IPNSUpdateResult +
  ipfsHash :: "string option"

definition DEFAULT_TTL_MS :: nat where
  "DEFAULT_TTL_MS = 60 * 1000"

definition DEFAULT_LIFETIME_MS :: nat where
  "DEFAULT_LIFETIME_MS = 365 * 24 * 60 * 60 * 1000"

text \<open>\<^verbatim>\<open>getIPNSNameFromKeypair\<close>: the empty string for a missing key, the base36 CID of the
  peer id otherwise.\<close>

definition getIPNSNameFromKeypair :: "env \<Rightarrow> PrivateKey option \<Rightarrow> string" where
  "getIPNSNameFromKeypair E privateKey =
     (case privateKey of
        None \<Rightarrow> ''''
      | Some k \<Rightarrow> peerIdCidBase36 E (publicKey k))"

definition HEAD :: "string \<Rightarrow> request" where
  "HEAD u = \<lparr>httpMethod = ''HEAD'', url = u, headers = [], body = None\<rparr>"

text \<open>The two closures of \<^verbatim>\<open>resolveIPNSFromPublicKey\<close> (lines 77-104).\<close>

definition publicMethod1 :: "env \<Rightarrow> string \<Rightarrow> (exn + string) io" where
  "publicMethod1 E ipnsPublicKey t =
     (let rq = HEAD (''https://ipfs.io/ipns/'' @ ipnsPublicKey) in
      case fetch E t rq of
        Inl e \<Rightarrow> (Inl e, t @ [Fetch rq])
      | Inr response \<Rightarrow>
          (case (if ok response then headersGet response ''X-Ipfs-Roots'' else None) of
             None \<Rightarrow>
               (Inl (Error (''Gateway header resolution failed: '' @ numberToString (status response))),
                t @ [Fetch rq])
           | Some ipfsRoots \<Rightarrow>
               if ipfsRoots \<noteq> '''' then (Inr (trim ipfsRoots), t @ [Fetch rq])
               else (Inl (Error (''Gateway header resolution failed: '' @ numberToString (status response))),
                     t @ [Fetch rq])))"

definition publicMethod2 :: "env \<Rightarrow> string \<Rightarrow> (exn + string) io" where
  "publicMethod2 E ipnsPublicKey t =
     (let rq = HEAD (''https://cloudflare-ipfs.com/ipns/'' @ ipnsPublicKey) in
      case fetch E t rq of
        Inl e \<Rightarrow> (Inl e, t @ [Fetch rq])
      | Inr response \<Rightarrow>
          (case (if ok response then headersGet response ''X-Ipfs-Roots'' else None) of
             None \<Rightarrow>
               (Inl (Error (''Cloudflare gateway failed: '' @ numberToString (status response))),
                t @ [Fetch rq])
           | Some ipfsRoots \<Rightarrow>
               if ipfsRoots \<noteq> '''' then (Inr (trim ipfsRoots), t @ [Fetch rq])
               else (Inl (Error (''Cloudflare gateway failed: '' @ numberToString (status response))),
                     t @ [Fetch rq])))"

text \<open>The loop \<^verbatim>\<open>for (const method of resolutionMethods)\<close> with its inner
  \<^verbatim>\<open>try/catch\<close>, and the return that follows the loop (lines 108-126 and 188-206: the
  same text in both functions).\<close>

fun tryEachMethod :: "string \<Rightarrow> (exn + string) io list \<Rightarrow> IPNSResolveResult io" where
  "tryEachMethod name [] t =
     (\<lparr>success = False, error = Some ''All resolution methods failed'',
       ipnsName = Some name, ipfsHash = None\<rparr>, t)"
| "tryEachMethod name (m # rest) t =
     (case m t of
        (Inr hash, t') \<Rightarrow>
          (\<lparr>success = True, error = None, ipnsName = Some name, ipfsHash = Some hash\<rparr>, t')
      | (Inl e, t') \<Rightarrow>
          tryEachMethod name rest (t' @ [Console Warn [S ''Resolution method failed:'', X e]]))"

text \<open>\<^verbatim>\<open>resolveIPNSFromPublicKey\<close>. Nothing outside the inner \<^verbatim>\<open>try\<close> can throw, so
  the outer \<^verbatim>\<open>catch\<close> has no branch here.\<close>

definition resolveIPNSFromPublicKey :: "env \<Rightarrow> string \<Rightarrow> IPNSResolveResult io" where
  "resolveIPNSFromPublicKey E ipnsPublicKey t =
     (let resolutionMethods = [publicMethod1 E ipnsPublicKey, publicMethod2 E ipnsPublicKey]
      in tryEachMethod ipnsPublicKey resolutionMethods t)"

text \<open>The two closures of \<^verbatim>\<open>resolveIPNSFromPrivateKey\<close> (lines 157-184).\<close>

definition privateMethod1 :: "env \<Rightarrow> string \<Rightarrow> (exn + string) io" where
  "privateMethod1 E name t =
     (let rq = HEAD (''https://ipfs.io/ipns/'' @ name) in
      case fetch E t rq of
        Inl e \<Rightarrow> (Inl e, t @ [Fetch rq])
      | Inr response \<Rightarrow>
          (case (if ok response then headersGet response ''X-Ipfs-Roots'' else None) of
             None \<Rightarrow>
               (Inl (Error (''Gateway header resolution failed: '' @ numberToString (status response))),
                t @ [Fetch rq])
           | Some ipfsRoots \<Rightarrow>
               if ipfsRoots \<noteq> '''' then (Inr (trim ipfsRoots), t @ [Fetch rq])
               else (Inl (Error (''Gateway header resolution failed: '' @ numberToString (status response))),
                     t @ [Fetch rq])))"

definition privateMethod2 :: "env \<Rightarrow> string \<Rightarrow> (exn + string) io" where
  "privateMethod2 E name t =
     (let rq = HEAD (''https://cloudflare-ipfs.com/ipns/'' @ name) in
      case fetch E t rq of
        Inl e \<Rightarrow> (Inl e, t @ [Fetch rq])
      | Inr response \<Rightarrow>
          (case (if ok response then headersGet response ''X-Ipfs-Roots'' else None) of
             None \<Rightarrow>
               (Inl (Error (''Cloudflare gateway failed: '' @ numberToString (status response))),
                t @ [Fetch rq])
           | Some ipfsRoots \<Rightarrow>
               if ipfsRoots \<noteq> '''' then (Inr (trim ipfsRoots), t @ [Fetch rq])
               else (Inl (Error (''Cloudflare gateway failed: '' @ numberToString (status response))),
                     t @ [Fetch rq])))"

text \<open>The outer \<^verbatim>\<open>catch\<close> of both resolve functions (lines 128-134, 208-214).\<close>

definition resolveFailed :: "exn \<Rightarrow> IPNSResolveResult io" where
  "resolveFailed e t =
     (\<lparr>success = False, error = Some (errorMessage e ''Unknown IPNS resolve error''),
       ipnsName = None, ipfsHash = None\<rparr>,
      t @ [Console Err [S ''IPNS resolve failed:'', X e]])"

definition resolveIPNSFromPrivateKey :: "env \<Rightarrow> string \<Rightarrow> IPNSResolveResult io" where
  "resolveIPNSFromPrivateKey E privateKeyBase64 t =
     (case uint8ArrayFromString E privateKeyBase64 of
        Inl e \<Rightarrow> resolveFailed e t
      | Inr keyBytes \<Rightarrow>
          (case privateKeyFromProtobuf E keyBytes of
             Inl e \<Rightarrow> resolveFailed e t
           | Inr keypair \<Rightarrow>
               if keyType keypair \<noteq> ''Ed25519''
               then resolveFailed (Error ''Only libp2p Ed25519 keys are supported'') t
               else
                 (let name = getIPNSNameFromKeypair E (Some keypair);
                      resolutionMethods = [privateMethod1 E name, privateMethod2 E name]
                  in tryEachMethod name resolutionMethods t)))"

section \<open>ipnsUpdater.ts: publishing a record\<close>

text \<open>
  The statements of the \<^verbatim>\<open>try\<close> block of \<^verbatim>\<open>updateIPNSRecord\<close> that follow the
  creation of the Helia instance (lines 235-268). \<open>Inr\<close> carries the name returned on success,
  \<open>Inl\<close> what was thrown. \<^verbatim>\<open>Date.now()\<close> is read after the key and the CID are parsed;
  the log records the call of \<^verbatim>\<open>createIPNSRecord\<close>, which signs, with its arguments.
\<close>

definition publishRecord :: "env \<Rightarrow> helia \<Rightarrow> string \<Rightarrow> string \<Rightarrow> (exn + string) io" where
  "publishRecord E h ipfsHash' privateKeyBase64 t =
     (case uint8ArrayFromString E privateKeyBase64 of
        Inl e \<Rightarrow> (Inl e, t)
      | Inr keyBytes \<Rightarrow>
     (case privateKeyFromProtobuf E keyBytes of
        Inl e \<Rightarrow> (Inl e, t)
      | Inr keypair \<Rightarrow>
     if keyType keypair \<noteq> ''Ed25519''
     then (Inl (Error ''Only libp2p Ed25519 keys are supported''), t)
     else
     (case cidParse E ipfsHash' of
        Inl e \<Rightarrow> (Inl e, t)
      | Inr c \<Rightarrow>
     (let name = getIPNSNameFromKeypair E (Some keypair);
          sequenceNumber = dateNow E t;
          ttlMs = DEFAULT_TTL_MS;
          lifetime = DEFAULT_LIFETIME_MS;
          ttlNs = ttlMs * 1000000;
          t1 = t @ [CreateIPNSRecord keypair c sequenceNumber lifetime ttlNs]
      in
      case createIPNSRecord E t keypair c sequenceNumber lifetime ttlNs of
        Inl e \<Rightarrow> (Inl e, t1)
      | Inr rec \<Rightarrow>
     (case marshalIPNSRecord E rec of
        Inl e \<Rightarrow> (Inl e, t1)
      | Inr marshaledRecord \<Rightarrow>
     (case toMultihash E (publicKey keypair) of
        Inl e \<Rightarrow> (Inl e, t1)
      | Inr multihash \<Rightarrow>
     (case multihashToIPNSRoutingKey E multihash of
        Inl e \<Rightarrow> (Inl e, t1)
      | Inr routingKey \<Rightarrow>
     (case routingPut E t1 h routingKey marshaledRecord of
        Some e \<Rightarrow> (Inl e, t1 @ [RoutingPut h routingKey marshaledRecord])
      | None \<Rightarrow> (Inr name, t1 @ [RoutingPut h routingKey marshaledRecord])))))))))"

text \<open>The \<^verbatim>\<open>finally\<close> block (lines 276-285).\<close>

definition finallyStop :: "env \<Rightarrow> helia option \<Rightarrow> event list \<Rightarrow> event list" where
  "finallyStop E helia t =
     (case helia of
        None \<Rightarrow> t
      | Some h \<Rightarrow>
          (case heliaStop E t h of
             None \<Rightarrow> t @ [StopHelia h]
           | Some stopError \<Rightarrow>
               t @ [StopHelia h, Console Warn [S ''Warning: Error stopping Helia:'', X stopError]]))"

text \<open>\<^verbatim>\<open>updateIPNSRecord\<close>: \<^verbatim>\<open>try\<close> (create the instance, publish), \<^verbatim>\<open>catch\<close>,
  \<^verbatim>\<open>finally\<close>.\<close>

definition updateIPNSRecord :: "env \<Rightarrow> string \<Rightarrow> string \<Rightarrow> IPNSUpdateResult io" where
  "updateIPNSRecord E ipfsHash' privateKeyBase64 t =
     (let (helia, outcome, t1) =
            (case createHeliaHTTP E t of
               Inl e \<Rightarrow> (None, Inl e, t @ [CreateHelia])
             | Inr h \<Rightarrow>
                 (case publishRecord E h ipfsHash' privateKeyBase64 (t @ [CreateHelia]) of
                    (r, t') \<Rightarrow> (Some h, r, t')));
          (result, t2) =
            (case outcome of
               Inr name \<Rightarrow> (\<lparr>success = True, error = None, ipnsName = Some name\<rparr>, t1)
             | Inl e \<Rightarrow>
                 (\<lparr>success = False, error = Some (errorMessage e ''Unknown IPNS update error''),
                   ipnsName = None\<rparr>,
                  t1 @ [Console Err [S ''IPNS update failed:'', X e]]))
      in (result, finallyStop E helia t2))"

section \<open>ipnsUpdater.ts: upload, then publish\<close>

record EnvironmentConfig =
  ipnsPublicKey :: string
  ipnsPrivateKey :: "string option"

text \<open>The result shape \<^verbatim>\<open>{ success; ipfsHash?; error? }\<close> of an upload. The hash field is
  named \<open>ipfsHashU\<close> here, \<open>ipfsHash\<close> being the field of \<open>IPNSResolveResult\<close>. Its type is
  a parameter: the callback of \<^verbatim>\<open>uploadAndUpdateIPNS\<close> is declared with a string, while
  \<^verbatim>\<open>uploadConfigToIPFS\<close> returns whatever value the response held.\<close>

record 'h UploadResult = Result +
  ipfsHashU :: "'h option"

text \<open>\<^verbatim>\<open>environmentConfig?.ipnsPrivateKey || null\<close>: a missing config, a missing key and
  the empty string all give \<^verbatim>\<open>null\<close>.\<close>

definition getIPNSPrivateKeyFromConfig :: "EnvironmentConfig option \<Rightarrow> string option" where
  "getIPNSPrivateKeyFromConfig environmentConfig =
     (case environmentConfig of
        None \<Rightarrow> None
      | Some c \<Rightarrow>
          (case ipnsPrivateKey c of
             None \<Rightarrow> None
           | Some k \<Rightarrow> if k = '''' then None else Some k))"

definition isIPNSConfiguredForEnvironmentConfig :: "EnvironmentConfig option \<Rightarrow> bool" where
  "isIPNSConfiguredForEnvironmentConfig environmentConfig =
     (let privateKey = getIPNSPrivateKeyFromConfig environmentConfig in privateKey \<noteq> None)"

text \<open>\<^verbatim>\<open>uploadAndUpdateIPNS\<close>. The callback is awaited outside any \<^verbatim>\<open>try\<close>: what it
  throws is thrown by the function (\<open>Inl\<close>). The returned object is the pair of
  \<^verbatim>\<open>ipfsResult\<close> and the optional \<^verbatim>\<open>ipnsResult\<close>.\<close>

definition uploadAndUpdateIPNS ::
  "env \<Rightarrow> json \<Rightarrow> string \<Rightarrow> EnvironmentConfig option \<Rightarrow> string \<Rightarrow>
   (json \<Rightarrow> string \<Rightarrow> string option \<Rightarrow> (exn + string UploadResult) io) \<Rightarrow>
   (exn + string UploadResult \<times> IPNSUpdateResult option) io" where
  "uploadAndUpdateIPNS E config environmentName environmentConfig quickNodeApiKey uploadToIPFS t =
     (case uploadToIPFS config environmentName (Some quickNodeApiKey) t of
        (Inl e, t1) \<Rightarrow> (Inl e, t1)
      | (Inr ipfsResult, t1) \<Rightarrow>
          (case (if success ipfsResult then ipfsHashU ipfsResult else None) of
             None \<Rightarrow> (Inr (ipfsResult, None), t1)
           | Some hash \<Rightarrow>
               if hash = '''' then (Inr (ipfsResult, None), t1)
               else
                 (case getIPNSPrivateKeyFromConfig environmentConfig of
                    None \<Rightarrow> (Inr (ipfsResult, None), t1)
                  | Some privateKey \<Rightarrow>
                      (case updateIPNSRecord E hash privateKey t1 of
                         (ipnsResult, t2) \<Rightarrow> (Inr (ipfsResult, Some ipnsResult), t2)))))"

section \<open>ipfsUploader.ts\<close>

text \<open>JavaScript on parsed JSON: truthiness of a value or of \<^verbatim>\<open>undefined\<close> (\<open>None\<close>),
  \<^verbatim>\<open>a || b\<close>, and the property reads \<^verbatim>\<open>v.k\<close> and \<^verbatim>\<open>v?.k\<close> for the property names
  the service uses (none of them is defined on a string, number, boolean or array, so
  only an object can have them; reading a property of \<^verbatim>\<open>null\<close> throws a
  \<^verbatim>\<open>TypeError\<close> that names the property between single quotes, \<open>CHR 0x27\<close>).\<close>

fun truthy :: "json option \<Rightarrow> bool" where
  "truthy None = False"
| "truthy (Some JNull) = False"
| "truthy (Some (JBool b)) = b"
| "truthy (Some (JNum n)) = (n \<noteq> 0)"
| "truthy (Some (JStr s)) = (s \<noteq> '''')"
| "truthy (Some (JArr xs)) = True"
| "truthy (Some (JObj kvs)) = True"

definition orElse :: "json option \<Rightarrow> json option \<Rightarrow> json option" where
  "orElse a b = (if truthy a then a else b)"

fun getProp :: "json \<Rightarrow> string \<Rightarrow> exn + json option" where
  "getProp JNull k =
     Inl (Error (''Cannot read properties of null (reading '' @ [CHR 0x27] @ k @ [CHR 0x27] @ '')''))"
| "getProp (JObj kvs) k = Inr (map_of kvs k)"
| "getProp v k = Inr None"


text \<open>\<^verbatim>\<open>if (s)\<close> on an optional string.\<close>

fun truthyString :: "string option \<Rightarrow> bool" where
  "truthyString None = False"
| "truthyString (Some s) = (s \<noteq> '''')"

text \<open>A string or \<^verbatim>\<open>undefined\<close> inside a template literal.\<close>

fun template :: "string option \<Rightarrow> string" where
  "template None = ''undefined''"
| "template (Some s) = s"

definition getQuickNodeApiKey :: "string option \<Rightarrow> exn + string" where
  "getQuickNodeApiKey apiKey =
     (if truthyString apiKey
      then Inr (template apiKey)
      else Inl (Error ''QuickNode API key is required - either from config.__env.quickNodeApiKey''))"

definition pinningRequest :: "string \<Rightarrow> request" where
  "pinningRequest apiKey =
     \<lparr>httpMethod = ''GET'',
      url = ''https://api.quicknode.com/ipfs/rest/v1/pinning?pageNumber=1&perPage=10'',
      headers = [(''x-api-key'', apiKey)], body = None\<rparr>"


definition putObjectRequest :: "string \<Rightarrow> string \<Rightarrow> string \<Rightarrow> request" where
  "putObjectRequest apiKey fileName jsonString =
     \<lparr>httpMethod = ''POST'',
      url = ''https://api.quicknode.com/ipfs/rest/v1/s3/put-object'',
      headers = [(''x-api-key'', apiKey)],
      body = Some [(''Body'', FormBlob jsonString ''application/json'' fileName),
                   (''Key'', FormString fileName),
                   (''ContentType'', FormString ''application/json'')]\<rparr>"

text \<open>\<^verbatim>\<open>getAllPinnedObjects\<close>: the pair is \<^verbatim>\<open>{ objects, error }\<close>. Every throw inside is
  caught and becomes the error string.\<close>

definition getAllPinnedObjects :: "env \<Rightarrow> string option \<Rightarrow> (json option \<times> string option) io" where
  "getAllPinnedObjects E quickNodeApiKey t =
     (case getQuickNodeApiKey quickNodeApiKey of
        Inl e \<Rightarrow> ((Some (JArr []), Some (errorMessage e ''Unknown error getting pinned objects'')), t)
      | Inr apiKey \<Rightarrow>
          (case fetch E t (pinningRequest apiKey) of
             Inl e \<Rightarrow>
               ((Some (JArr []), Some (errorMessage e ''Unknown error getting pinned objects'')),
                t @ [Fetch (pinningRequest apiKey)])
           | Inr response \<Rightarrow>
               if \<not> ok response then
                 (case bodyText response of
                    Inl e \<Rightarrow>
                      ((Some (JArr []), Some (errorMessage e ''Unknown error getting pinned objects'')),
                       t @ [Fetch (pinningRequest apiKey)])
                  | Inr errorText \<Rightarrow>
                      ((Some (JArr []),
                        Some (''Failed to get pinned objects: '' @ numberToString (status response)
                              @ '' - '' @ errorText)),
                       t @ [Fetch (pinningRequest apiKey)]))
               else
                 (case bodyJson response of
                    Inl e \<Rightarrow>
                      ((Some (JArr []), Some (errorMessage e ''Unknown error getting pinned objects'')),
                       t @ [Fetch (pinningRequest apiKey)])
                  | Inr result \<Rightarrow>
                      (case getProp result ''data'' of
                         Inl e \<Rightarrow>
                           ((Some (JArr []),
                             Some (errorMessage e ''Unknown error getting pinned objects'')),
                            t @ [Fetch (pinningRequest apiKey)])
                       | Inr d \<Rightarrow>
                           ((orElse (orElse d (Some result)) (Some (JArr [])), None),
                            t @ [Fetch (pinningRequest apiKey)])))))"








text \<open>Line 39: the name under which the configuration of an environment is pinned.\<close>

definition envFileName :: "string \<Rightarrow> string" where
  "envFileName environmentName = ''env-'' @ environmentName @ ''.json''"



section \<open>Vocabulary of the statements\<close>

text \<open>\<open>allFail ms t\<close> is the log after every method of \<open>ms\<close>, run in order from the log
  \<open>t\<close>, has thrown (each failure followed by the warning the loop prints); it is \<open>None\<close>
  when one of them returns. \<open>fetched\<close> lists the requests of a log.\<close>

fun allFail :: "(exn + string) io list \<Rightarrow> event list \<Rightarrow> event list option" where
  "allFail [] t = Some t"
| "allFail (m # rest) t =
     (case m t of
        (Inl e, t') \<Rightarrow> allFail rest (t' @ [Console Warn [S ''Resolution method failed:'', X e]])
      | (Inr hash, t') \<Rightarrow> None)"

fun fetched :: "event list \<Rightarrow> request list" where
  "fetched [] = []"
| "fetched (Fetch rq # es) = rq # fetched es"
| "fetched (e # es) = fetched es"

text \<open>Kinds of events, and the sequence numbers of the records signed in a log.\<close>

fun isCreateIPNSRecord :: "event \<Rightarrow> bool" where
  "isCreateIPNSRecord (CreateIPNSRecord k c sq lt ttl) = True"
| "isCreateIPNSRecord e = False"

fun isRoutingPut :: "event \<Rightarrow> bool" where
  "isRoutingPut (RoutingPut h k v) = True"
| "isRoutingPut e = False"

fun isWarning :: "event \<Rightarrow> bool" where
  "isWarning (Console Warn a) = True"
| "isWarning e = False"

fun sequenceNumbers :: "event list \<Rightarrow> nat list" where
  "sequenceNumbers [] = []"
| "sequenceNumbers (CreateIPNSRecord k c sq lt ttl # es) = sq # sequenceNumbers es"
| "sequenceNumbers (e # es) = sequenceNumbers es"


section \<open>Sample environments\<close>

definition ed25519Key :: PrivateKey where
  "ed25519Key = \<lparr>keyType = ''Ed25519'',
                  publicKey = \<lparr>algorithm = ''Ed25519'', raw = [1, 2, 3]\<rparr>,
                  privateRaw = [7, 7]\<rparr>"

definition rsaKey :: PrivateKey where
  "rsaKey = \<lparr>keyType = ''RSA'',
              publicKey = \<lparr>algorithm = ''RSA'', raw = [4, 5, 6]\<rparr>,
              privateRaw = [8, 8]\<rparr>"

definition gatewayReply :: "string \<Rightarrow> response" where
  "gatewayReply roots =
     \<lparr>ok = True, status = 200,
      headersGet = (\<lambda>h. if h = ''X-Ipfs-Roots'' then Some roots else None),
      bodyText = Inr [], bodyJson = Inl (Error ''Unexpected end of JSON input'')\<rparr>"

definition unavailable :: response where
  "unavailable =
     \<lparr>ok = False, status = 503, headersGet = (\<lambda>h. None),
      bodyText = Inr ''Service Unavailable'', bodyJson = Inl (Error ''Unexpected token S'')\<rparr>"

definition demoEnv :: env where
  "demoEnv =
     \<lparr>fetch = (\<lambda>t rq. if url rq = ''https://cloudflare-ipfs.com/ipns/k51demo''
                       then Inr (gatewayReply '' bafydemo '')
                       else Inl (Error ''Failed to fetch'')),
      dateNow = (\<lambda>t. 1700000000000),
      createHeliaHTTP = (\<lambda>t. Inr (Helia 1)),
      heliaStop = (\<lambda>t h. None),
      routingPut = (\<lambda>t h k v. None),
      createIPNSRecord = (\<lambda>t k c sq lt ttl. Inr (IPNSRecord [0])),
      uint8ArrayFromString = (\<lambda>s. if s = ''ed'' then Inr [1] else if s = ''rsa'' then Inr [2]
                                   else if s = ''junk'' then Inr [3]
                                   else Inl (Error ''Non-base64 character'')),
      privateKeyFromProtobuf = (\<lambda>b. if b = [1] then Inr ed25519Key else if b = [2] then Inr rsaKey
                                     else Inl (Error ''Invalid protobuf'')),
      peerIdCidBase36 = (\<lambda>p. if raw p = [1, 2, 3] then ''k51demo'' else ''k51other''),
      cidParse = (\<lambda>s. if s = ''bafydemo'' then Inr (CID [9]) else Inl (Error ''Invalid CID'')),
      marshalIPNSRecord = (\<lambda>r. Inr [5]),
      toMultihash = (\<lambda>p. Inr (raw p)),
      multihashToIPNSRoutingKey = (\<lambda>m. Inr (47 # m)),
      jsonStringify = (\<lambda>indent j. Inr ''{}''),
      toStr = (\<lambda>v. case v of Some (JStr s) \<Rightarrow> s | _ \<Rightarrow> ''undefined'')\<rparr>"

definition downEnv :: env where
  "downEnv = demoEnv\<lparr>fetch := (\<lambda>t rq. if url rq = ''https://cloudflare-ipfs.com/ipns/k51demo''
                                        then Inr unavailable
                                        else Inl (Error ''Failed to fetch''))\<rparr>"


definition noHeliaEnv :: env where
  "noHeliaEnv = demoEnv\<lparr>createHeliaHTTP := (\<lambda>t. Inl (Error ''Helia could not start''))\<rparr>"


definition publishLog :: "event list" where
  "publishLog =
     [CreateHelia,
      CreateIPNSRecord ed25519Key (CID [9]) 1700000000000 31536000000 60000000000,
      RoutingPut (Helia 1) [47, 1, 2, 3] [5],
      StopHelia (Helia 1)]"



definition prodPin :: json where
  "prodPin = JObj [(''name'', JStr ''env-prod.json''), (''requestId'', JStr ''r2'')]"

definition pinned :: json where
  "pinned = JObj [(''data'',
                   JArr [JObj [(''name'', JStr ''env-dev.json''), (''requestId'', JStr ''r1'')],
                         prodPin])]"









definition storeOk :: "json \<Rightarrow> string \<Rightarrow> string option \<Rightarrow> (exn + string UploadResult) io" where
  "storeOk config environmentName apiKey t =
     (Inr \<lparr>success = True, error = None, ipfsHashU = Some ''bafydemo''\<rparr>,
      t @ [Fetch (putObjectRequest (template apiKey) (envFileName environmentName) ''{}'')])"

definition storeFailed :: "json \<Rightarrow> string \<Rightarrow> string option \<Rightarrow> (exn + string UploadResult) io" where
  "storeFailed config environmentName apiKey t =
     (Inr \<lparr>success = False, error = Some ''QuickNode upload failed: 503 - Service Unavailable'',
           ipfsHashU = None\<rparr>,
      t @ [Fetch (putObjectRequest (template apiKey) (envFileName environmentName) ''{}'')])"

definition prodConfig :: EnvironmentConfig where
  "prodConfig = \<lparr>ipnsPublicKey = ''k51demo'', ipnsPrivateKey = Some ''ed''\<rparr>"

definition storeThrows :: "json \<Rightarrow> string \<Rightarrow> string option \<Rightarrow> (exn + string UploadResult) io" where
  "storeThrows config environmentName apiKey t = (Inl (Error ''Failed to fetch''), t)"

section \<open>Resolution\<close>


lemma privateMethod1_eq: "privateMethod1 = publicMethod1"
  by (intro ext) (simp add: privateMethod1_def publicMethod1_def)

lemma privateMethod2_eq: "privateMethod2 = publicMethod2"
  by (intro ext) (simp add: privateMethod2_def publicMethod2_def)

lemma publicMethod1_log:
  "publicMethod1 E n t = (r, t') \<Longrightarrow> t' = t @ [Fetch (HEAD (''https://ipfs.io/ipns/'' @ n))]"
  by (auto simp: publicMethod1_def Let_def split: sum.splits option.splits if_splits)

lemma publicMethod2_log:
  "publicMethod2 E n t = (r, t') \<Longrightarrow> t' = t @ [Fetch (HEAD (''https://cloudflare-ipfs.com/ipns/'' @ n))]"
  by (auto simp: publicMethod2_def Let_def split: sum.splits option.splits if_splits)

lemma tryEachMethod_first_success:
  "allFail pre t = Some t1 \<Longrightarrow> m t1 = (Inr h, t2) \<Longrightarrow>
   tryEachMethod n (pre @ m # post) t =
     (\<lparr>success = True, error = None, ipnsName = Some n, ipfsHash = Some h\<rparr>, t2)"
proof (induction pre arbitrary: t)
  case Nil
  then show ?case by simp
next
  case (Cons a pre)
  then show ?case by (auto split: prod.splits sum.splits)
qed

lemma tryEachMethod_exhausted:
  "allFail ms t = Some t1 \<Longrightarrow>
   tryEachMethod n ms t =
     (\<lparr>success = False, error = Some ''All resolution methods failed'',
       ipnsName = Some n, ipfsHash = None\<rparr>, t1)"
  by (induction ms arbitrary: t) (auto split: prod.splits sum.splits)

lemma resolvePrivate_valid:
  "uint8ArrayFromString E key = Inr kb \<Longrightarrow> privateKeyFromProtobuf E kb = Inr kp \<Longrightarrow>
   keyType kp = ''Ed25519'' \<Longrightarrow>
   resolveIPNSFromPrivateKey E key t =
     tryEachMethod (getIPNSNameFromKeypair E (Some kp))
       [publicMethod1 E (getIPNSNameFromKeypair E (Some kp)),
        publicMethod2 E (getIPNSNameFromKeypair E (Some kp))] t"
  by (simp add: resolveIPNSFromPrivateKey_def privateMethod1_eq privateMethod2_eq Let_def)

text \<open>
  Claim C1. In both resolve functions the strategies are tried in the order of the list,
  the ipfs.io gateway and then the Cloudflare gateway. When the first \<open>k\<close> of them fail
  and the next one returns a content hash \<open>h\<close>, the result is \<open>success = True\<close> with
  \<open>ipfsHash = h\<close>, and the call ends with the log as that strategy left it: the requests
  made are those of the first \<open>k + 1\<close> gateways, in order, and no later strategy is invoked.
  For \<^verbatim>\<open>resolveIPNSFromPrivateKey\<close> the key decodes to an Ed25519 key whose name is
  \<open>name\<close>.
\<close>

theorem resolve_first_success_wins:
  assumes "k < 2"
    and "allFail (take k [publicMethod1 E name, publicMethod2 E name]) t = Some t1"
    and "([publicMethod1 E name, publicMethod2 E name] ! k) t1 = (Inr h, t2)"
  shows "resolveIPNSFromPublicKey E name t =
           (\<lparr>success = True, error = None, ipnsName = Some name, ipfsHash = Some h\<rparr>, t2)
       \<and> (\<forall>key kb kp. uint8ArrayFromString E key = Inr kb \<and> privateKeyFromProtobuf E kb = Inr kp
             \<and> keyType kp = ''Ed25519'' \<and> getIPNSNameFromKeypair E (Some kp) = name \<longrightarrow>
            resolveIPNSFromPrivateKey E key t =
              (\<lparr>success = True, error = None, ipnsName = Some name, ipfsHash = Some h\<rparr>, t2))
       \<and> (\<exists>l. t2 = t @ l \<and> fetched l =
             take (Suc k) [HEAD (''https://ipfs.io/ipns/'' @ name),
                           HEAD (''https://cloudflare-ipfs.com/ipns/'' @ name)])"
proof -
  let ?ms = "[publicMethod1 E name, publicMethod2 E name]"
  let ?ok = "\<lparr>success = True, error = None, ipnsName = Some name, ipfsHash = Some h\<rparr>"
  have split: "?ms = take k ?ms @ (?ms ! k) # drop (Suc k) ?ms"
    by (rule id_take_nth_drop) (use assms(1) in simp)
  have run: "tryEachMethod name ?ms t = (?ok, t2)"
    using tryEachMethod_first_success
            [where pre = "take k ?ms" and m = "?ms ! k" and post = "drop (Suc k) ?ms"
               and n = name, OF assms(2) assms(3)]
    by (subst split) simp
  have pub: "resolveIPNSFromPublicKey E name t = (?ok, t2)"
    using run by (simp add: resolveIPNSFromPublicKey_def)
  have priv: "resolveIPNSFromPrivateKey E key t = (?ok, t2)"
    if "uint8ArrayFromString E key = Inr kb" "privateKeyFromProtobuf E kb = Inr kp"
       "keyType kp = ''Ed25519''" "getIPNSNameFromKeypair E (Some kp) = name" for key kb kp
    using resolvePrivate_valid [OF that(1) that(2) that(3), of t] that(4) run by simp
  have "k = 0 \<or> k = 1" using assms(1) by auto
  then have order: "\<exists>l. t2 = t @ l \<and> fetched l =
             take (Suc k) [HEAD (''https://ipfs.io/ipns/'' @ name),
                           HEAD (''https://cloudflare-ipfs.com/ipns/'' @ name)]"
  proof
    assume "k = 0"
    with assms(2,3) show ?thesis
      by (auto dest!: publicMethod1_log)
  next
    assume "k = 1"
    with assms(2,3) show ?thesis
      by (auto split: prod.splits sum.splits dest!: publicMethod1_log publicMethod2_log)
  qed
  from pub priv order show ?thesis by blast
qed


lemma trim_demo: "trim '' bafydemo '' = ''bafydemo''"
  by (simp add: trim_def isWhiteSpace_def)

theorem resolve_first_success_wins_witness:
  "resolveIPNSFromPublicKey demoEnv ''k51demo'' [] =
     (\<lparr>success = True, error = None, ipnsName = Some ''k51demo'', ipfsHash = Some ''bafydemo''\<rparr>,
      [Fetch (HEAD ''https://ipfs.io/ipns/k51demo''),
       Console Warn [S ''Resolution method failed:'', X (Error ''Failed to fetch'')],
       Fetch (HEAD ''https://cloudflare-ipfs.com/ipns/k51demo'')])
   \<and> resolveIPNSFromPrivateKey demoEnv ''ed'' [] =
     (\<lparr>success = True, error = None, ipnsName = Some ''k51demo'', ipfsHash = Some ''bafydemo''\<rparr>,
      [Fetch (HEAD ''https://ipfs.io/ipns/k51demo''),
       Console Warn [S ''Resolution method failed:'', X (Error ''Failed to fetch'')],
       Fetch (HEAD ''https://cloudflare-ipfs.com/ipns/k51demo'')])"
proof -
  let ?t1 = "[Fetch (HEAD ''https://ipfs.io/ipns/k51demo''),
              Console Warn [S ''Resolution method failed:'', X (Error ''Failed to fetch'')]]"
  let ?t2 = "?t1 @ [Fetch (HEAD ''https://cloudflare-ipfs.com/ipns/k51demo'')]"
  have k: "(1::nat) < 2" by simp
  have first: "allFail (take 1 [publicMethod1 demoEnv ''k51demo'', publicMethod2 demoEnv ''k51demo'']) []
                 = Some ?t1"
    by (simp add: publicMethod1_def demoEnv_def HEAD_def)
  have second: "([publicMethod1 demoEnv ''k51demo'', publicMethod2 demoEnv ''k51demo''] ! 1) ?t1
                 = (Inr ''bafydemo'', ?t2)"
    by (simp add: publicMethod2_def demoEnv_def HEAD_def gatewayReply_def trim_demo)
  have key: "uint8ArrayFromString demoEnv ''ed'' = Inr [1] \<and>
             privateKeyFromProtobuf demoEnv [1] = Inr ed25519Key \<and>
             keyType ed25519Key = ''Ed25519'' \<and>
             getIPNSNameFromKeypair demoEnv (Some ed25519Key) = ''k51demo''"
    by (simp add: demoEnv_def ed25519Key_def getIPNSNameFromKeypair_def)
  from resolve_first_success_wins [OF k first second] key show ?thesis
    by simp
qed



text \<open>
  Claim C2. When every strategy fails, each failure is caught inside the loop (a warning is
  logged, the next strategy runs) and none of the thrown errors reaches the result: both
  resolve functions return \<open>success = False\<close>, no \<open>ipfsHash\<close>, and the aggregated error
  \<^verbatim>\<open>All resolution methods failed\<close>, whatever the strategies threw. For
  \<^verbatim>\<open>resolveIPNSFromPrivateKey\<close> the key decodes to an Ed25519 key whose name is \<open>name\<close>.
\<close>

theorem resolve_exhausted:
  assumes "allFail [publicMethod1 E name, publicMethod2 E name] t = Some t'"
  shows "resolveIPNSFromPublicKey E name t =
           (\<lparr>success = False, error = Some ''All resolution methods failed'',
             ipnsName = Some name, ipfsHash = None\<rparr>, t')
       \<and> (\<forall>key kb kp. uint8ArrayFromString E key = Inr kb \<and> privateKeyFromProtobuf E kb = Inr kp
             \<and> keyType kp = ''Ed25519'' \<and> getIPNSNameFromKeypair E (Some kp) = name \<longrightarrow>
            resolveIPNSFromPrivateKey E key t =
              (\<lparr>success = False, error = Some ''All resolution methods failed'',
                ipnsName = Some name, ipfsHash = None\<rparr>, t'))
       \<and> ''All resolution methods failed'' \<noteq> ''''"
proof -
  let ?ms = "[publicMethod1 E name, publicMethod2 E name]"
  let ?no = "\<lparr>success = False, error = Some ''All resolution methods failed'',
              ipnsName = Some name, ipfsHash = None\<rparr>"
  have run: "tryEachMethod name ?ms t = (?no, t')"
    using assms by (rule tryEachMethod_exhausted)
  have pub: "resolveIPNSFromPublicKey E name t = (?no, t')"
    using run by (simp add: resolveIPNSFromPublicKey_def)
  have priv: "resolveIPNSFromPrivateKey E key t = (?no, t')"
    if "uint8ArrayFromString E key = Inr kb" "privateKeyFromProtobuf E kb = Inr kp"
       "keyType kp = ''Ed25519''" "getIPNSNameFromKeypair E (Some kp) = name" for key kb kp
    using resolvePrivate_valid [OF that(1) that(2) that(3), of t] that(4) run by simp
  from pub priv show ?thesis by blast
qed

lemma numberToString_503: "numberToString 503 = ''503''"
  by (simp add: numberToString.simps digit_def)

theorem resolve_exhausted_witness:
  "resolveIPNSFromPublicKey downEnv ''k51demo'' [] =
     (\<lparr>success = False, error = Some ''All resolution methods failed'',
       ipnsName = Some ''k51demo'', ipfsHash = None\<rparr>,
      [Fetch (HEAD ''https://ipfs.io/ipns/k51demo''),
       Console Warn [S ''Resolution method failed:'', X (Error ''Failed to fetch'')],
       Fetch (HEAD ''https://cloudflare-ipfs.com/ipns/k51demo''),
       Console Warn [S ''Resolution method failed:'', X (Error ''Cloudflare gateway failed: 503'')]])
   \<and> resolveIPNSFromPrivateKey downEnv ''ed'' [] =
     (\<lparr>success = False, error = Some ''All resolution methods failed'',
       ipnsName = Some ''k51demo'', ipfsHash = None\<rparr>,
      [Fetch (HEAD ''https://ipfs.io/ipns/k51demo''),
       Console Warn [S ''Resolution method failed:'', X (Error ''Failed to fetch'')],
       Fetch (HEAD ''https://cloudflare-ipfs.com/ipns/k51demo''),
       Console Warn [S ''Resolution method failed:'', X (Error ''Cloudflare gateway failed: 503'')]])"
proof -
  let ?t' = "[Fetch (HEAD ''https://ipfs.io/ipns/k51demo''),
       Console Warn [S ''Resolution method failed:'', X (Error ''Failed to fetch'')],
       Fetch (HEAD ''https://cloudflare-ipfs.com/ipns/k51demo''),
       Console Warn [S ''Resolution method failed:'', X (Error ''Cloudflare gateway failed: 503'')]]"
  have fail: "allFail [publicMethod1 downEnv ''k51demo'', publicMethod2 downEnv ''k51demo''] [] = Some ?t'"
    by (simp add: publicMethod1_def publicMethod2_def downEnv_def demoEnv_def HEAD_def
          unavailable_def numberToString_503)
  have key: "uint8ArrayFromString downEnv ''ed'' = Inr [1] \<and>
             privateKeyFromProtobuf downEnv [1] = Inr ed25519Key \<and>
             keyType ed25519Key = ''Ed25519'' \<and>
             getIPNSNameFromKeypair downEnv (Some ed25519Key) = ''k51demo''"
    by (simp add: downEnv_def demoEnv_def ed25519Key_def getIPNSNameFromKeypair_def)
  from resolve_exhausted [OF fail] key show ?thesis
    by simp
qed

text \<open>
  Claim C7. For a key that decodes to an Ed25519 key, \<^verbatim>\<open>resolveIPNSFromPrivateKey\<close> is
  \<^verbatim>\<open>resolveIPNSFromPublicKey\<close> on the name derived from the key: started from the same
  log in the same environment, the two produce the same result record (success flag,
  content hash, name, error) and the same log, hence the same requests in the same order.
\<close>

theorem resolve_private_is_public_after_derivation:
  assumes "uint8ArrayFromString E key = Inr kb"
    and "privateKeyFromProtobuf E kb = Inr kp"
    and "keyType kp = ''Ed25519''"
  shows "resolveIPNSFromPrivateKey E key t =
           resolveIPNSFromPublicKey E (getIPNSNameFromKeypair E (Some kp)) t"
  using resolvePrivate_valid [OF assms, of t]
  by (simp add: resolveIPNSFromPublicKey_def)

theorem resolve_private_is_public_after_derivation_witness:
  "uint8ArrayFromString demoEnv ''ed'' = Inr [1] \<and>
   privateKeyFromProtobuf demoEnv [1] = Inr ed25519Key \<and>
   keyType ed25519Key = ''Ed25519'' \<and>
   resolveIPNSFromPrivateKey demoEnv ''ed'' [] =
     resolveIPNSFromPublicKey demoEnv (getIPNSNameFromKeypair demoEnv (Some ed25519Key)) []"
proof -
  have 1: "uint8ArrayFromString demoEnv ''ed'' = Inr [1]" by (simp add: demoEnv_def)
  have 2: "privateKeyFromProtobuf demoEnv [1] = Inr ed25519Key" by (simp add: demoEnv_def)
  have 3: "keyType ed25519Key = ''Ed25519''" by (simp add: ed25519Key_def)
  from 1 2 3 resolve_private_is_public_after_derivation [OF 1 2 3, of "[]"] show ?thesis
    by simp
qed

section \<open>Publishing\<close>

lemma publishRecord_outcome:
  assumes "publishRecord E h x key t = (r, t')"
  shows "(\<exists>e. r = Inl e \<and> t' = t)
       \<or> (\<exists>e kb kp c. r = Inl e \<and> uint8ArrayFromString E key = Inr kb \<and>
             privateKeyFromProtobuf E kb = Inr kp \<and> keyType kp = ''Ed25519'' \<and> cidParse E x = Inr c \<and>
             t' = t @ [CreateIPNSRecord kp c (dateNow E t) DEFAULT_LIFETIME_MS (DEFAULT_TTL_MS * 1000000)])
       \<or> (\<exists>kb kp c rec bs mh rk.
             uint8ArrayFromString E key = Inr kb \<and>
             privateKeyFromProtobuf E kb = Inr kp \<and> keyType kp = ''Ed25519'' \<and> cidParse E x = Inr c \<and>
             createIPNSRecord E t kp c (dateNow E t) DEFAULT_LIFETIME_MS (DEFAULT_TTL_MS * 1000000) = Inr rec \<and>
             marshalIPNSRecord E rec = Inr bs \<and> toMultihash E (publicKey kp) = Inr mh \<and>
             multihashToIPNSRoutingKey E mh = Inr rk \<and>
             r = (case routingPut E (t @ [CreateIPNSRecord kp c (dateNow E t) DEFAULT_LIFETIME_MS (DEFAULT_TTL_MS * 1000000)]) h rk bs of
                    Some e \<Rightarrow> Inl e | None \<Rightarrow> Inr (getIPNSNameFromKeypair E (Some kp))) \<and>
             t' = t @ [CreateIPNSRecord kp c (dateNow E t) DEFAULT_LIFETIME_MS (DEFAULT_TTL_MS * 1000000),
                       RoutingPut h rk bs])"
  using assms
  by (auto simp: publishRecord_def Let_def split: sum.splits option.splits if_splits)


lemma finallyStop_Some:
  "\<exists>tail. finallyStop E (Some h) t = t @ StopHelia h # tail \<and> (\<forall>ev\<in>set tail. isWarning ev)"
  by (simp add: finallyStop_def split: option.splits)

lemma updateIPNSRecord_no_helia:
  "createHeliaHTTP E t = Inl e \<Longrightarrow>
   updateIPNSRecord E x key t =
     (\<lparr>success = False, error = Some (errorMessage e ''Unknown IPNS update error''), ipnsName = None\<rparr>,
      t @ [CreateHelia, Console Err [S ''IPNS update failed:'', X e]])"
  by (simp add: updateIPNSRecord_def finallyStop_def)

lemma updateIPNSRecord_thrown:
  "createHeliaHTTP E t = Inr h \<Longrightarrow> publishRecord E h x key (t @ [CreateHelia]) = (Inl e, t1) \<Longrightarrow>
   updateIPNSRecord E x key t =
     (\<lparr>success = False, error = Some (errorMessage e ''Unknown IPNS update error''), ipnsName = None\<rparr>,
      finallyStop E (Some h) (t1 @ [Console Err [S ''IPNS update failed:'', X e]]))"
  by (simp add: updateIPNSRecord_def)

lemma updateIPNSRecord_returned:
  "createHeliaHTTP E t = Inr h \<Longrightarrow> publishRecord E h x key (t @ [CreateHelia]) = (Inr name, t1) \<Longrightarrow>
   updateIPNSRecord E x key t =
     (\<lparr>success = True, error = None, ipnsName = Some name\<rparr>, finallyStop E (Some h) t1)"
  by (simp add: updateIPNSRecord_def)

lemma sequenceNumbers_warnings: "\<forall>ev\<in>set l. isWarning ev \<Longrightarrow> sequenceNumbers l = []"
  by (induction l rule: sequenceNumbers.induct) simp_all

lemma updateIPNSRecord_begins:
  assumes "updateIPNSRecord E x key t = (r, t')"
  shows "\<exists>l. t' = t @ CreateHelia # l"
proof (cases "createHeliaHTTP E t")
  case (Inl e)
  from updateIPNSRecord_no_helia [OF Inl, of x key] assms show ?thesis by simp
next
  case (Inr h)
  obtain o1 t1 where pub: "publishRecord E h x key (t @ [CreateHelia]) = (o1, t1)"
    by (cases "publishRecord E h x key (t @ [CreateHelia])")
  from publishRecord_outcome [OF pub] obtain l1 where t1: "t1 = t @ CreateHelia # l1" by auto
  show ?thesis
  proof (cases o1)
    case (Inl e)
    from updateIPNSRecord_thrown [OF Inr pub [unfolded Inl]] assms t1
      finallyStop_Some [of E h "t1 @ [Console Err [S ''IPNS update failed:'', X e]]"]
    show ?thesis by auto
  next
    case name: (Inr name)
    from updateIPNSRecord_returned [OF Inr pub [unfolded name]] assms t1 finallyStop_Some [of E h t1]
    show ?thesis by auto
  qed
qed

lemma updateIPNSRecord_error_no_helia:
  assumes "updateIPNSRecord E x key t = (r, t')" and "createHeliaHTTP E t = Inl e0"
  shows "error r = Some (errorMessage e0 ''Unknown IPNS update error'')"
  using updateIPNSRecord_no_helia [OF assms(2), of x key] assms(1) by simp

lemma updateIPNSRecord_error_base64:
  assumes "updateIPNSRecord E x key t = (r, t')" and "createHeliaHTTP E t = Inr h"
    and "uint8ArrayFromString E key = Inl e1"
  shows "error r = Some (errorMessage e1 ''Unknown IPNS update error'')"
proof -
  have "publishRecord E h x key (t @ [CreateHelia]) = (Inl e1, t @ [CreateHelia])"
    using assms(3) by (simp add: publishRecord_def)
  from updateIPNSRecord_thrown [OF assms(2) this] assms(1) show ?thesis by simp
qed

lemma updateIPNSRecord_error_protobuf:
  assumes "updateIPNSRecord E x key t = (r, t')" and "createHeliaHTTP E t = Inr h"
    and "uint8ArrayFromString E key = Inr kb" and "privateKeyFromProtobuf E kb = Inl e2"
  shows "error r = Some (errorMessage e2 ''Unknown IPNS update error'')"
proof -
  have "publishRecord E h x key (t @ [CreateHelia]) = (Inl e2, t @ [CreateHelia])"
    using assms(3,4) by (simp add: publishRecord_def)
  from updateIPNSRecord_thrown [OF assms(2) this] assms(1) show ?thesis by simp
qed

lemma updateIPNSRecord_error_key_type:
  assumes "updateIPNSRecord E x key t = (r, t')" and "createHeliaHTTP E t = Inr h"
    and "uint8ArrayFromString E key = Inr kb" and "privateKeyFromProtobuf E kb = Inr kp"
    and "keyType kp \<noteq> ''Ed25519''"
  shows "error r = Some ''Only libp2p Ed25519 keys are supported''"
proof -
  have "publishRecord E h x key (t @ [CreateHelia])
          = (Inl (Error ''Only libp2p Ed25519 keys are supported''), t @ [CreateHelia])"
    using assms(3,4,5) by (simp add: publishRecord_def)
  from updateIPNSRecord_thrown [OF assms(2) this] assms(1) show ?thesis by simp
qed

lemma updateIPNSRecord_published:
  assumes "createHeliaHTTP E t = Inr h"
    and "uint8ArrayFromString E key = Inr kb" and "privateKeyFromProtobuf E kb = Inr kp"
    and "keyType kp = ''Ed25519''" and "cidParse E x = Inr c"
    and "createIPNSRecord E (t @ [CreateHelia]) kp c (dateNow E (t @ [CreateHelia]))
           DEFAULT_LIFETIME_MS (DEFAULT_TTL_MS * 1000000) = Inr rec"
    and "marshalIPNSRecord E rec = Inr bs" and "toMultihash E (publicKey kp) = Inr mh"
    and "multihashToIPNSRoutingKey E mh = Inr rk"
    and "routingPut E (t @ [CreateHelia,
            CreateIPNSRecord kp c (dateNow E (t @ [CreateHelia])) DEFAULT_LIFETIME_MS
              (DEFAULT_TTL_MS * 1000000)]) h rk bs = None"
  shows "\<exists>tail. updateIPNSRecord E x key t =
           (\<lparr>success = True, error = None,
             ipnsName = Some (getIPNSNameFromKeypair E (Some kp))\<rparr>,
            t @ [CreateHelia,
                 CreateIPNSRecord kp c (dateNow E (t @ [CreateHelia])) DEFAULT_LIFETIME_MS
                   (DEFAULT_TTL_MS * 1000000),
                 RoutingPut h rk bs, StopHelia h] @ tail)
         \<and> (\<forall>ev\<in>set tail. isWarning ev)"
proof -
  let ?sign = "CreateIPNSRecord kp c (dateNow E (t @ [CreateHelia])) DEFAULT_LIFETIME_MS
                 (DEFAULT_TTL_MS * 1000000)"
  have pub: "publishRecord E h x key (t @ [CreateHelia]) =
               (Inr (getIPNSNameFromKeypair E (Some kp)),
                (t @ [CreateHelia]) @ [?sign, RoutingPut h rk bs])"
    using assms(2-10) by (simp add: publishRecord_def Let_def)
  obtain tail where stop: "finallyStop E (Some h) ((t @ [CreateHelia]) @ [?sign, RoutingPut h rk bs])
                             = ((t @ [CreateHelia]) @ [?sign, RoutingPut h rk bs]) @ StopHelia h # tail"
    and tail: "\<forall>ev\<in>set tail. isWarning ev"
    using finallyStop_Some by blast
  from updateIPNSRecord_returned [OF assms(1) pub] stop
  have "updateIPNSRecord E x key t =
           (\<lparr>success = True, error = None,
             ipnsName = Some (getIPNSNameFromKeypair E (Some kp))\<rparr>,
            t @ [CreateHelia, ?sign, RoutingPut h rk bs, StopHelia h] @ tail)"
    by simp
  with tail show ?thesis by blast
qed

text \<open>
  Claim C8. When \<^verbatim>\<open>createHeliaHTTP\<close> returned an instance \<open>h\<close>, every run of
  \<^verbatim>\<open>updateIPNSRecord\<close> (success, rejected key or hash, failed put, any thrown error)
  calls \<^verbatim>\<open>h.stop()\<close> before it returns: the log of the call is the creation, then the
  events of the \<^verbatim>\<open>try\<close> and \<^verbatim>\<open>catch\<close> blocks, none of them a stop, then the stop of
  \<open>h\<close>, then at most the warning printed when \<^verbatim>\<open>stop()\<close> itself throws.
\<close>

theorem updateIPNSRecord_stops_helia:
  assumes "createHeliaHTTP E t = Inr h"
    and "updateIPNSRecord E x key t = (r, t')"
  shows "\<exists>mid tail. t' = t @ CreateHelia # mid @ StopHelia h # tail \<and>
           (\<forall>ev\<in>set mid. \<forall>h'. ev \<noteq> StopHelia h') \<and> (\<forall>ev\<in>set tail. isWarning ev)"
proof -
  obtain o1 t1 where pub: "publishRecord E h x key (t @ [CreateHelia]) = (o1, t1)"
    by (cases "publishRecord E h x key (t @ [CreateHelia])")
  from publishRecord_outcome [OF pub]
  obtain l1 where t1: "t1 = t @ CreateHelia # l1" and l1: "\<forall>ev\<in>set l1. \<forall>h'. ev \<noteq> StopHelia h'"
    by auto
  show ?thesis
  proof (cases o1)
    case (Inl e)
    let ?mid = "l1 @ [Console Err [S ''IPNS update failed:'', X e]]"
    obtain tail where stop: "finallyStop E (Some h) (t1 @ [Console Err [S ''IPNS update failed:'', X e]])
        = (t1 @ [Console Err [S ''IPNS update failed:'', X e]]) @ StopHelia h # tail"
      and tail: "\<forall>ev\<in>set tail. isWarning ev"
      using finallyStop_Some by blast
    from updateIPNSRecord_thrown [OF assms(1) pub [unfolded Inl]] assms(2) stop t1
    have "t' = t @ CreateHelia # ?mid @ StopHelia h # tail" by simp
    moreover from l1 have "\<forall>ev\<in>set ?mid. \<forall>h'. ev \<noteq> StopHelia h'" by auto
    ultimately show ?thesis using tail by blast
  next
    case name: (Inr name)
    obtain tail where stop: "finallyStop E (Some h) t1 = t1 @ StopHelia h # tail"
      and tail: "\<forall>ev\<in>set tail. isWarning ev"
      using finallyStop_Some by blast
    from updateIPNSRecord_returned [OF assms(1) pub [unfolded name]] assms(2) stop t1
    have "t' = t @ CreateHelia # l1 @ StopHelia h # tail" by simp
    with l1 tail show ?thesis by blast
  qed
qed

lemma publishRecord_demo:
  "publishRecord demoEnv (Helia 1) ''bafydemo'' ''ed'' [CreateHelia] =
     (Inr ''k51demo'',
      [CreateHelia,
       CreateIPNSRecord ed25519Key (CID [9]) 1700000000000 31536000000 60000000000,
       RoutingPut (Helia 1) [47, 1, 2, 3] [5]])"
  by (simp add: publishRecord_def demoEnv_def ed25519Key_def getIPNSNameFromKeypair_def
        DEFAULT_TTL_MS_def DEFAULT_LIFETIME_MS_def)

lemma updateIPNSRecord_demo:
  "updateIPNSRecord demoEnv ''bafydemo'' ''ed'' [] =
     (\<lparr>success = True, error = None, ipnsName = Some ''k51demo''\<rparr>,
      [CreateHelia,
       CreateIPNSRecord ed25519Key (CID [9]) 1700000000000 31536000000 60000000000,
       RoutingPut (Helia 1) [47, 1, 2, 3] [5],
       StopHelia (Helia 1)])"
proof -
  have h: "createHeliaHTTP demoEnv [] = Inr (Helia 1)" by (simp add: demoEnv_def)
  have s: "heliaStop demoEnv = (\<lambda>t h. None)" by (simp add: demoEnv_def)
  from updateIPNSRecord_returned [OF h, of "''bafydemo''" "''ed''"] publishRecord_demo
  show ?thesis by (simp add: finallyStop_def s)
qed

theorem updateIPNSRecord_stops_helia_witness:
  "createHeliaHTTP demoEnv [] = Inr (Helia 1) \<and>
   updateIPNSRecord demoEnv ''bafydemo'' ''ed'' [] =
     (\<lparr>success = True, error = None, ipnsName = Some ''k51demo''\<rparr>,
      [CreateHelia,
       CreateIPNSRecord ed25519Key (CID [9]) 1700000000000 31536000000 60000000000,
       RoutingPut (Helia 1) [47, 1, 2, 3] [5],
       StopHelia (Helia 1)]) \<and>
   (\<exists>mid tail.
      [CreateHelia,
       CreateIPNSRecord ed25519Key (CID [9]) 1700000000000 31536000000 60000000000,
       RoutingPut (Helia 1) [47, 1, 2, 3] [5],
       StopHelia (Helia 1)] = [] @ CreateHelia # mid @ StopHelia (Helia 1) # tail \<and>
      (\<forall>ev\<in>set mid. \<forall>h'. ev \<noteq> StopHelia h') \<and> (\<forall>ev\<in>set tail. isWarning ev))"
proof -
  have h: "createHeliaHTTP demoEnv [] = Inr (Helia 1)" by (simp add: demoEnv_def)
  from h updateIPNSRecord_demo updateIPNSRecord_stops_helia [OF h updateIPNSRecord_demo]
  show ?thesis by blast
qed

lemma updateIPNSRecord_no_sign_no_put:
  assumes "updateIPNSRecord E x key t = (r, t')"
  shows "(\<forall>e. cidParse E x = Inl e \<longrightarrow>
            \<not> success r \<and>
            (\<forall>ev\<in>set (drop (length t) t'). \<not> isCreateIPNSRecord ev \<and> \<not> isRoutingPut ev) \<and>
            (\<forall>h kb kp. createHeliaHTTP E t = Inr h \<and> uint8ArrayFromString E key = Inr kb \<and>
                privateKeyFromProtobuf E kb = Inr kp \<and> keyType kp = ''Ed25519'' \<longrightarrow>
                error r = Some (errorMessage e ''Unknown IPNS update error'')))
       \<and> (\<forall>h rk bs. RoutingPut h rk bs \<in> set (drop (length t) t') \<longrightarrow>
            (\<exists>kb kp c rec mh.
               uint8ArrayFromString E key = Inr kb \<and> privateKeyFromProtobuf E kb = Inr kp \<and>
               keyType kp = ''Ed25519'' \<and> cidParse E x = Inr c \<and>
               createIPNSRecord E (t @ [CreateHelia]) kp c (dateNow E (t @ [CreateHelia]))
                 DEFAULT_LIFETIME_MS (DEFAULT_TTL_MS * 1000000) = Inr rec \<and>
               marshalIPNSRecord E rec = Inr bs \<and>
               toMultihash E (publicKey kp) = Inr mh \<and> multihashToIPNSRoutingKey E mh = Inr rk))"
proof (cases "createHeliaHTTP E t")
  case (Inl e)
  from updateIPNSRecord_no_helia [OF Inl, of x key] assms Inl show ?thesis by auto
next
  case (Inr h)
  obtain o1 t1 where pub: "publishRecord E h x key (t @ [CreateHelia]) = (o1, t1)"
    by (cases "publishRecord E h x key (t @ [CreateHelia])")
  note out = publishRecord_outcome [OF pub]
  show ?thesis
  proof (cases o1)
    case thrown: (Inl e)
    obtain tail where stop: "finallyStop E (Some h) (t1 @ [Console Err [S ''IPNS update failed:'', X e]])
        = (t1 @ [Console Err [S ''IPNS update failed:'', X e]]) @ StopHelia h # tail"
      and tail: "\<forall>ev\<in>set tail. isWarning ev"
      using finallyStop_Some by blast
    from updateIPNSRecord_thrown [OF Inr pub [unfolded thrown]] assms stop
    have r: "r = \<lparr>success = False, error = Some (errorMessage e ''Unknown IPNS update error''),
                  ipnsName = None\<rparr>"
      and t': "t' = t1 @ Console Err [S ''IPNS update failed:'', X e] # StopHelia h # tail"
      by simp_all
    have tailput: "\<forall>ev\<in>set tail. \<not> isRoutingPut ev \<and> \<not> isCreateIPNSRecord ev"
    proof
      fix ev assume "ev \<in> set tail"
      with tail have "isWarning ev" by blast
      then show "\<not> isRoutingPut ev \<and> \<not> isCreateIPNSRecord ev" by (cases ev) simp_all
    qed
    have bad: "\<not> success r \<and>
            (\<forall>ev\<in>set (drop (length t) t'). \<not> isCreateIPNSRecord ev \<and> \<not> isRoutingPut ev) \<and>
            (\<forall>h kb kp. createHeliaHTTP E t = Inr h \<and> uint8ArrayFromString E key = Inr kb \<and>
                privateKeyFromProtobuf E kb = Inr kp \<and> keyType kp = ''Ed25519'' \<longrightarrow>
                error r = Some (errorMessage e' ''Unknown IPNS update error''))"
      if "cidParse E x = Inl e'" for e'
    proof -
      from out that thrown have t1: "t1 = t @ [CreateHelia]" by auto
      have "error r = Some (errorMessage e' ''Unknown IPNS update error'')"
        if "uint8ArrayFromString E key = Inr kb" "privateKeyFromProtobuf E kb = Inr kp"
           "keyType kp = ''Ed25519''" for kb kp
        using pub that \<open>cidParse E x = Inl e'\<close> thrown r by (simp add: publishRecord_def)
      with r t' t1 tailput show ?thesis by auto
    qed
    have put: "\<exists>kb kp c rec mh.
               uint8ArrayFromString E key = Inr kb \<and> privateKeyFromProtobuf E kb = Inr kp \<and>
               keyType kp = ''Ed25519'' \<and> cidParse E x = Inr c \<and>
               createIPNSRecord E (t @ [CreateHelia]) kp c (dateNow E (t @ [CreateHelia]))
                 DEFAULT_LIFETIME_MS (DEFAULT_TTL_MS * 1000000) = Inr rec \<and>
               marshalIPNSRecord E rec = Inr bs \<and>
               toMultihash E (publicKey kp) = Inr mh \<and> multihashToIPNSRoutingKey E mh = Inr rk"
      if "RoutingPut h' rk bs \<in> set (drop (length t) t')" for h' rk bs
      using out
    proof (elim disjE exE conjE, goal_cases)
      case 1
      with that t' tailput show ?case by auto
    next
      case 2
      with that t' tailput show ?case by auto
    next
      case 3
      with that t' tailput show ?case by auto
    qed
    from bad put show ?thesis by blast
  next
    case name: (Inr name)
    obtain tail where stop: "finallyStop E (Some h) t1 = t1 @ StopHelia h # tail"
      and tail: "\<forall>ev\<in>set tail. isWarning ev"
      using finallyStop_Some by blast
    from updateIPNSRecord_returned [OF Inr pub [unfolded name]] assms stop
    have r: "r = \<lparr>success = True, error = None, ipnsName = Some name\<rparr>"
      and t': "t' = t1 @ StopHelia h # tail"
      by simp_all
    have tailput: "\<forall>ev\<in>set tail. \<not> isRoutingPut ev \<and> \<not> isCreateIPNSRecord ev"
    proof
      fix ev assume "ev \<in> set tail"
      with tail have "isWarning ev" by blast
      then show "\<not> isRoutingPut ev \<and> \<not> isCreateIPNSRecord ev" by (cases ev) simp_all
    qed
    from out name obtain kb kp c rec bs mh rk where ok:
      "uint8ArrayFromString E key = Inr kb" "privateKeyFromProtobuf E kb = Inr kp"
      "keyType kp = ''Ed25519''" "cidParse E x = Inr c"
      "createIPNSRecord E (t @ [CreateHelia]) kp c (dateNow E (t @ [CreateHelia]))
         DEFAULT_LIFETIME_MS (DEFAULT_TTL_MS * 1000000) = Inr rec"
      "marshalIPNSRecord E rec = Inr bs" "toMultihash E (publicKey kp) = Inr mh"
      "multihashToIPNSRoutingKey E mh = Inr rk"
      "t1 = (t @ [CreateHelia]) @
         [CreateIPNSRecord kp c (dateNow E (t @ [CreateHelia])) DEFAULT_LIFETIME_MS (DEFAULT_TTL_MS * 1000000),
          RoutingPut h rk bs]"
      by auto
    from ok t' tailput show ?thesis by auto
  qed
qed

text \<open>
  Claim C3, as amended. When \<^verbatim>\<open>CID.parse\<close> rejects the hash, \<^verbatim>\<open>updateIPNSRecord\<close>
  returns \<open>success = False\<close> and the call contains neither \<^verbatim>\<open>createIPNSRecord\<close> (which
  signs) nor \<^verbatim>\<open>routing.put\<close>. The error returned is the one of \<^verbatim>\<open>CID.parse\<close> when
  the steps that come first in the source went through: the Helia instance was created and
  the key decoded to an Ed25519 key. Otherwise it is the error of the first of those steps
  that failed: the creation of the instance, the base64 decoding, the protobuf decoding, or
  the check of the key type. In every call, a \<^verbatim>\<open>routing.put\<close> in the log means
  that key and hash were parsed, \<^verbatim>\<open>createIPNSRecord\<close> returned a record,
  \<^verbatim>\<open>marshalIPNSRecord\<close> returned its bytes and the routing key was computed, and the put
  carries that key and those bytes.
\<close>

theorem updateIPNSRecord_malformed_hash:
  assumes "updateIPNSRecord E x key t = (r, t')"
  shows "(\<forall>e. cidParse E x = Inl e \<longrightarrow>
            \<not> success r \<and>
            (\<forall>ev\<in>set (drop (length t) t'). \<not> isCreateIPNSRecord ev \<and> \<not> isRoutingPut ev) \<and>
            (\<forall>h kb kp. createHeliaHTTP E t = Inr h \<and> uint8ArrayFromString E key = Inr kb \<and>
                privateKeyFromProtobuf E kb = Inr kp \<and> keyType kp = ''Ed25519'' \<longrightarrow>
                error r = Some (errorMessage e ''Unknown IPNS update error'')) \<and>
            (\<forall>e0. createHeliaHTTP E t = Inl e0 \<longrightarrow>
                error r = Some (errorMessage e0 ''Unknown IPNS update error'')) \<and>
            (\<forall>h e1. createHeliaHTTP E t = Inr h \<and> uint8ArrayFromString E key = Inl e1 \<longrightarrow>
                error r = Some (errorMessage e1 ''Unknown IPNS update error'')) \<and>
            (\<forall>h kb e2. createHeliaHTTP E t = Inr h \<and> uint8ArrayFromString E key = Inr kb \<and>
                privateKeyFromProtobuf E kb = Inl e2 \<longrightarrow>
                error r = Some (errorMessage e2 ''Unknown IPNS update error'')) \<and>
            (\<forall>h kb kp. createHeliaHTTP E t = Inr h \<and> uint8ArrayFromString E key = Inr kb \<and>
                privateKeyFromProtobuf E kb = Inr kp \<and> keyType kp \<noteq> ''Ed25519'' \<longrightarrow>
                error r = Some ''Only libp2p Ed25519 keys are supported''))
       \<and> (\<forall>h rk bs. RoutingPut h rk bs \<in> set (drop (length t) t') \<longrightarrow>
            (\<exists>kb kp c rec mh.
               uint8ArrayFromString E key = Inr kb \<and> privateKeyFromProtobuf E kb = Inr kp \<and>
               keyType kp = ''Ed25519'' \<and> cidParse E x = Inr c \<and>
               createIPNSRecord E (t @ [CreateHelia]) kp c (dateNow E (t @ [CreateHelia]))
                 DEFAULT_LIFETIME_MS (DEFAULT_TTL_MS * 1000000) = Inr rec \<and>
               marshalIPNSRecord E rec = Inr bs \<and>
               toMultihash E (publicKey kp) = Inr mh \<and> multihashToIPNSRoutingKey E mh = Inr rk))"
proof -
  note core = updateIPNSRecord_no_sign_no_put [OF assms]
  show ?thesis
    apply (intro conjI allI impI)
    subgoal using core by blast
    subgoal using core by blast
    subgoal using core by blast
    subgoal by (rule updateIPNSRecord_error_no_helia [OF assms])
    subgoal by (elim conjE) (rule updateIPNSRecord_error_base64 [OF assms])
    subgoal by (elim conjE) (rule updateIPNSRecord_error_protobuf [OF assms])
    subgoal by (elim conjE) (rule updateIPNSRecord_error_key_type [OF assms])
    subgoal using core by blast
    done
qed

lemma updateIPNSRecord_demo_badhash:
  "updateIPNSRecord demoEnv ''not-a-cid'' ''ed'' [] =
     (\<lparr>success = False, error = Some ''Invalid CID'', ipnsName = None\<rparr>,
      [CreateHelia, Console Err [S ''IPNS update failed:'', X (Error ''Invalid CID'')],
       StopHelia (Helia 1)])"
proof -
  have h: "createHeliaHTTP demoEnv [] = Inr (Helia 1)" by (simp add: demoEnv_def)
  have s: "heliaStop demoEnv = (\<lambda>t h. None)" by (simp add: demoEnv_def)
  have p: "publishRecord demoEnv (Helia 1) ''not-a-cid'' ''ed'' ([] @ [CreateHelia]) =
             (Inl (Error ''Invalid CID''), [CreateHelia])"
    by (simp add: publishRecord_def demoEnv_def ed25519Key_def)
  from updateIPNSRecord_thrown [OF h p] show ?thesis by (simp add: finallyStop_def s)
qed

theorem updateIPNSRecord_malformed_hash_witness:
  "cidParse demoEnv ''not-a-cid'' = Inl (Error ''Invalid CID'') \<and>
   cidParse noHeliaEnv ''not-a-cid'' = Inl (Error ''Invalid CID'') \<and>
   createHeliaHTTP demoEnv [] = Inr (Helia 1) \<and>
   uint8ArrayFromString demoEnv ''ed'' = Inr [1] \<and>
   privateKeyFromProtobuf demoEnv [1] = Inr ed25519Key \<and> keyType ed25519Key = ''Ed25519'' \<and>
   \<not> success (fst (updateIPNSRecord demoEnv ''not-a-cid'' ''ed'' [])) \<and>
   error (fst (updateIPNSRecord demoEnv ''not-a-cid'' ''ed'' [])) = Some ''Invalid CID'' \<and>
   createHeliaHTTP noHeliaEnv [] = Inl (Error ''Helia could not start'') \<and>
   error (fst (updateIPNSRecord noHeliaEnv ''not-a-cid'' ''ed'' [])) = Some ''Helia could not start'' \<and>
   uint8ArrayFromString demoEnv ''zzz'' = Inl (Error ''Non-base64 character'') \<and>
   error (fst (updateIPNSRecord demoEnv ''not-a-cid'' ''zzz'' [])) = Some ''Non-base64 character'' \<and>
   uint8ArrayFromString demoEnv ''junk'' = Inr [3] \<and>
   privateKeyFromProtobuf demoEnv [3] = Inl (Error ''Invalid protobuf'') \<and>
   error (fst (updateIPNSRecord demoEnv ''not-a-cid'' ''junk'' [])) = Some ''Invalid protobuf'' \<and>
   uint8ArrayFromString demoEnv ''rsa'' = Inr [2] \<and>
   privateKeyFromProtobuf demoEnv [2] = Inr rsaKey \<and> keyType rsaKey \<noteq> ''Ed25519'' \<and>
   error (fst (updateIPNSRecord demoEnv ''not-a-cid'' ''rsa'' []))
     = Some ''Only libp2p Ed25519 keys are supported'' \<and>
   RoutingPut (Helia 1) [47, 1, 2, 3] [5] \<in> set (snd (updateIPNSRecord demoEnv ''bafydemo'' ''ed'' [])) \<and>
   (\<exists>kb kp c rec mh.
      uint8ArrayFromString demoEnv ''ed'' = Inr kb \<and> privateKeyFromProtobuf demoEnv kb = Inr kp \<and>
      keyType kp = ''Ed25519'' \<and> cidParse demoEnv ''bafydemo'' = Inr c \<and>
      createIPNSRecord demoEnv [CreateHelia] kp c (dateNow demoEnv [CreateHelia])
        DEFAULT_LIFETIME_MS (DEFAULT_TTL_MS * 1000000) = Inr rec \<and>
      marshalIPNSRecord demoEnv rec = Inr [5] \<and>
      toMultihash demoEnv (publicKey kp) = Inr mh \<and>
      multihashToIPNSRoutingKey demoEnv mh = Inr [47, 1, 2, 3])"
proof -
  have c1: "cidParse demoEnv ''not-a-cid'' = Inl (Error ''Invalid CID'')"
    by (simp add: demoEnv_def)
  have c2: "cidParse noHeliaEnv ''not-a-cid'' = Inl (Error ''Invalid CID'')"
    by (simp add: noHeliaEnv_def demoEnv_def)
  have h1: "createHeliaHTTP demoEnv [] = Inr (Helia 1)" by (simp add: demoEnv_def)
  have h2: "createHeliaHTTP noHeliaEnv [] = Inl (Error ''Helia could not start'')"
    by (simp add: noHeliaEnv_def)
  have ed: "uint8ArrayFromString demoEnv ''ed'' = Inr [1]"
    "privateKeyFromProtobuf demoEnv [1] = Inr ed25519Key" "keyType ed25519Key = ''Ed25519''"
    by (simp_all add: demoEnv_def ed25519Key_def)
  have zzz: "uint8ArrayFromString demoEnv ''zzz'' = Inl (Error ''Non-base64 character'')"
    by (simp add: demoEnv_def)
  have junk: "uint8ArrayFromString demoEnv ''junk'' = Inr [3]"
    "privateKeyFromProtobuf demoEnv [3] = Inl (Error ''Invalid protobuf'')"
    by (simp_all add: demoEnv_def)
  have rsa: "uint8ArrayFromString demoEnv ''rsa'' = Inr [2]"
    "privateKeyFromProtobuf demoEnv [2] = Inr rsaKey" "keyType rsaKey \<noteq> ''Ed25519''"
    by (simp_all add: demoEnv_def rsaKey_def)
  note w1 = updateIPNSRecord_malformed_hash
    [OF prod.collapse [symmetric, of "updateIPNSRecord demoEnv ''not-a-cid'' ''ed'' []"]]
  note w2 = updateIPNSRecord_malformed_hash
    [OF prod.collapse [symmetric, of "updateIPNSRecord noHeliaEnv ''not-a-cid'' ''ed'' []"]]
  note w3 = updateIPNSRecord_malformed_hash
    [OF prod.collapse [symmetric, of "updateIPNSRecord demoEnv ''not-a-cid'' ''zzz'' []"]]
  note w4 = updateIPNSRecord_malformed_hash
    [OF prod.collapse [symmetric, of "updateIPNSRecord demoEnv ''not-a-cid'' ''junk'' []"]]
  note w5 = updateIPNSRecord_malformed_hash
    [OF prod.collapse [symmetric, of "updateIPNSRecord demoEnv ''not-a-cid'' ''rsa'' []"]]
  note w6 = updateIPNSRecord_malformed_hash
    [OF prod.collapse [symmetric, of "updateIPNSRecord demoEnv ''bafydemo'' ''ed'' []"]]
  from w1 c1 h1 ed
  have a1: "\<not> success (fst (updateIPNSRecord demoEnv ''not-a-cid'' ''ed'' [])) \<and>
            error (fst (updateIPNSRecord demoEnv ''not-a-cid'' ''ed'' [])) = Some ''Invalid CID''"
    by auto
  from w2 c2 h2
  have a2: "error (fst (updateIPNSRecord noHeliaEnv ''not-a-cid'' ''ed'' []))
              = Some ''Helia could not start''"
    by auto
  from w3 c1 h1 zzz
  have a3: "error (fst (updateIPNSRecord demoEnv ''not-a-cid'' ''zzz'' []))
              = Some ''Non-base64 character''"
    by auto
  from w4 c1 h1 junk
  have a4: "error (fst (updateIPNSRecord demoEnv ''not-a-cid'' ''junk'' [])) = Some ''Invalid protobuf''"
    by auto
  from w5 c1 h1 rsa
  have a5: "error (fst (updateIPNSRecord demoEnv ''not-a-cid'' ''rsa'' []))
              = Some ''Only libp2p Ed25519 keys are supported''"
    by auto
  have put: "RoutingPut (Helia 1) [47, 1, 2, 3] [5]
               \<in> set (snd (updateIPNSRecord demoEnv ''bafydemo'' ''ed'' []))"
    by (simp add: updateIPNSRecord_demo)
  then have put': "RoutingPut (Helia 1) [47, 1, 2, 3] [5]
               \<in> set (drop (length ([]::event list)) (snd (updateIPNSRecord demoEnv ''bafydemo'' ''ed'' [])))"
    by simp
  from w6 put'
  have a6: "\<exists>kb kp c rec mh.
      uint8ArrayFromString demoEnv ''ed'' = Inr kb \<and> privateKeyFromProtobuf demoEnv kb = Inr kp \<and>
      keyType kp = ''Ed25519'' \<and> cidParse demoEnv ''bafydemo'' = Inr c \<and>
      createIPNSRecord demoEnv [CreateHelia] kp c (dateNow demoEnv [CreateHelia])
        DEFAULT_LIFETIME_MS (DEFAULT_TTL_MS * 1000000) = Inr rec \<and>
      marshalIPNSRecord demoEnv rec = Inr [5] \<and>
      toMultihash demoEnv (publicKey kp) = Inr mh \<and>
      multihashToIPNSRoutingKey demoEnv mh = Inr [47, 1, 2, 3]"
    by simp
  show ?thesis
    apply (intro conjI)
    subgoal by (rule c1)
    subgoal by (rule c2)
    subgoal by (rule h1)
    subgoal by (rule ed(1))
    subgoal by (rule ed(2))
    subgoal by (rule ed(3))
    subgoal using a1 by blast
    subgoal using a1 by blast
    subgoal by (rule h2)
    subgoal by (rule a2)
    subgoal by (rule zzz)
    subgoal by (rule a3)
    subgoal by (rule junk(1))
    subgoal by (rule junk(2))
    subgoal by (rule a4)
    subgoal by (rule rsa(1))
    subgoal by (rule rsa(2))
    subgoal by (rule rsa(3))
    subgoal by (rule a5)
    subgoal by (rule put)
    subgoal by (rule a6)
    done
qed

theorem updateIPNSRecord_malformed_hash_counterexample:
  "cidParse demoEnv ''not-a-cid'' = Inl (Error ''Invalid CID'') \<and>
   updateIPNSRecord demoEnv ''not-a-cid'' ''rsa'' [] =
     (\<lparr>success = False, error = Some ''Only libp2p Ed25519 keys are supported'', ipnsName = None\<rparr>,
      [CreateHelia,
       Console Err [S ''IPNS update failed:'', X (Error ''Only libp2p Ed25519 keys are supported'')],
       StopHelia (Helia 1)]) \<and>
   ''Only libp2p Ed25519 keys are supported'' \<noteq> ''Invalid CID''"
proof -
  have h: "createHeliaHTTP demoEnv [] = Inr (Helia 1)" by (simp add: demoEnv_def)
  have s: "heliaStop demoEnv = (\<lambda>t h. None)" by (simp add: demoEnv_def)
  have c: "cidParse demoEnv ''not-a-cid'' = Inl (Error ''Invalid CID'')" by (simp add: demoEnv_def)
  have p: "publishRecord demoEnv (Helia 1) ''not-a-cid'' ''rsa'' ([] @ [CreateHelia]) =
             (Inl (Error ''Only libp2p Ed25519 keys are supported''), [CreateHelia])"
    by (simp add: publishRecord_def demoEnv_def rsaKey_def)
  from updateIPNSRecord_thrown [OF h p] c show ?thesis by (simp add: finallyStop_def s)
qed


text \<open>
  Claim C4, as amended. \<^verbatim>\<open>updateIPNSRecord\<close> is given no earlier sequence number and
  compares none: there is no failure for a sequence number. Whatever the log of earlier
  calls holds, a call whose steps all succeed (the Helia instance, the decoding of the key,
  the parsing of the hash, the signing, the serialization, the routing key, the put)
  returns \<open>success = True\<close> after signing and putting exactly one record, whose sequence
  number is the reading of \<^verbatim>\<open>Date.now()\<close> in that call.
\<close>

theorem updateIPNSRecord_sequence_is_clock:
  assumes "createHeliaHTTP E t = Inr h"
    and "uint8ArrayFromString E key = Inr kb" and "privateKeyFromProtobuf E kb = Inr kp"
    and "keyType kp = ''Ed25519''" and "cidParse E x = Inr c"
    and "createIPNSRecord E (t @ [CreateHelia]) kp c (dateNow E (t @ [CreateHelia]))
           DEFAULT_LIFETIME_MS (DEFAULT_TTL_MS * 1000000) = Inr rec"
    and "marshalIPNSRecord E rec = Inr bs" and "toMultihash E (publicKey kp) = Inr mh"
    and "multihashToIPNSRoutingKey E mh = Inr rk"
    and "routingPut E (t @ [CreateHelia,
            CreateIPNSRecord kp c (dateNow E (t @ [CreateHelia])) DEFAULT_LIFETIME_MS
              (DEFAULT_TTL_MS * 1000000)]) h rk bs = None"
  shows "\<exists>tail. updateIPNSRecord E x key t =
           (\<lparr>success = True, error = None,
             ipnsName = Some (getIPNSNameFromKeypair E (Some kp))\<rparr>,
            t @ [CreateHelia,
                 CreateIPNSRecord kp c (dateNow E (t @ [CreateHelia])) DEFAULT_LIFETIME_MS
                   (DEFAULT_TTL_MS * 1000000),
                 RoutingPut h rk bs, StopHelia h] @ tail)
         \<and> (\<forall>ev\<in>set tail. isWarning ev)
         \<and> sequenceNumbers
              ([CreateHelia,
                CreateIPNSRecord kp c (dateNow E (t @ [CreateHelia])) DEFAULT_LIFETIME_MS
                  (DEFAULT_TTL_MS * 1000000),
                RoutingPut h rk bs, StopHelia h] @ tail) = [dateNow E (t @ [CreateHelia])]"
proof -
  from updateIPNSRecord_published [OF assms]
  obtain tail where run: "updateIPNSRecord E x key t =
           (\<lparr>success = True, error = None,
             ipnsName = Some (getIPNSNameFromKeypair E (Some kp))\<rparr>,
            t @ [CreateHelia,
                 CreateIPNSRecord kp c (dateNow E (t @ [CreateHelia])) DEFAULT_LIFETIME_MS
                   (DEFAULT_TTL_MS * 1000000),
                 RoutingPut h rk bs, StopHelia h] @ tail)"
    and tail: "\<forall>ev\<in>set tail. isWarning ev"
    by blast
  from tail have "sequenceNumbers
              ([CreateHelia,
                CreateIPNSRecord kp c (dateNow E (t @ [CreateHelia])) DEFAULT_LIFETIME_MS
                  (DEFAULT_TTL_MS * 1000000),
                RoutingPut h rk bs, StopHelia h] @ tail) = [dateNow E (t @ [CreateHelia])]"
    by (simp add: sequenceNumbers_warnings)
  with run tail show ?thesis by blast
qed

lemma updateIPNSRecord_demo_again:
  "updateIPNSRecord demoEnv ''bafydemo'' ''ed'' publishLog =
     (\<lparr>success = True, error = None, ipnsName = Some ''k51demo''\<rparr>, publishLog @ publishLog)"
proof -
  have h: "createHeliaHTTP demoEnv publishLog = Inr (Helia 1)" by (simp add: demoEnv_def)
  have s: "heliaStop demoEnv = (\<lambda>t h. None)" by (simp add: demoEnv_def)
  have p: "publishRecord demoEnv (Helia 1) ''bafydemo'' ''ed'' (publishLog @ [CreateHelia]) =
     (Inr ''k51demo'',
      publishLog @ [CreateHelia,
       CreateIPNSRecord ed25519Key (CID [9]) 1700000000000 31536000000 60000000000,
       RoutingPut (Helia 1) [47, 1, 2, 3] [5]])"
    by (simp add: publishRecord_def demoEnv_def ed25519Key_def getIPNSNameFromKeypair_def
          DEFAULT_TTL_MS_def DEFAULT_LIFETIME_MS_def)
  from updateIPNSRecord_returned [OF h p] show ?thesis
    by (simp add: finallyStop_def s publishLog_def)
qed

theorem updateIPNSRecord_sequence_is_clock_counterexample:
  "updateIPNSRecord demoEnv ''bafydemo'' ''ed'' [] =
     (\<lparr>success = True, error = None, ipnsName = Some ''k51demo''\<rparr>, publishLog) \<and>
   updateIPNSRecord demoEnv ''bafydemo'' ''ed'' publishLog =
     (\<lparr>success = True, error = None, ipnsName = Some ''k51demo''\<rparr>, publishLog @ publishLog) \<and>
   sequenceNumbers publishLog = [1700000000000] \<and>
   sequenceNumbers (publishLog @ publishLog) = [1700000000000, 1700000000000]"
  using updateIPNSRecord_demo updateIPNSRecord_demo_again
  by (simp add: publishLog_def)

theorem updateIPNSRecord_sequence_is_clock_witness:
  "updateIPNSRecord demoEnv ''bafydemo'' ''ed'' [] =
     (\<lparr>success = True, error = None, ipnsName = Some ''k51demo''\<rparr>, publishLog) \<and>
   sequenceNumbers publishLog = [1700000000000] \<and>
   dateNow demoEnv (publishLog @ [CreateHelia]) = 1700000000000 \<and>
   createHeliaHTTP demoEnv publishLog = Inr (Helia 1) \<and>
   uint8ArrayFromString demoEnv ''ed'' = Inr [1] \<and>
   privateKeyFromProtobuf demoEnv [1] = Inr ed25519Key \<and> keyType ed25519Key = ''Ed25519'' \<and>
   cidParse demoEnv ''bafydemo'' = Inr (CID [9]) \<and>
   (\<exists>tail. updateIPNSRecord demoEnv ''bafydemo'' ''ed'' publishLog =
       (\<lparr>success = True, error = None,
         ipnsName = Some (getIPNSNameFromKeypair demoEnv (Some ed25519Key))\<rparr>,
        publishLog @ [CreateHelia,
          CreateIPNSRecord ed25519Key (CID [9]) (dateNow demoEnv (publishLog @ [CreateHelia]))
            DEFAULT_LIFETIME_MS (DEFAULT_TTL_MS * 1000000),
          RoutingPut (Helia 1) [47, 1, 2, 3] [5], StopHelia (Helia 1)] @ tail)
     \<and> (\<forall>ev\<in>set tail. isWarning ev)
     \<and> sequenceNumbers
          ([CreateHelia,
            CreateIPNSRecord ed25519Key (CID [9]) (dateNow demoEnv (publishLog @ [CreateHelia]))
              DEFAULT_LIFETIME_MS (DEFAULT_TTL_MS * 1000000),
            RoutingPut (Helia 1) [47, 1, 2, 3] [5], StopHelia (Helia 1)] @ tail)
         = [dateNow demoEnv (publishLog @ [CreateHelia])])"
proof -
  have run1: "updateIPNSRecord demoEnv ''bafydemo'' ''ed'' [] =
     (\<lparr>success = True, error = None, ipnsName = Some ''k51demo''\<rparr>, publishLog)"
    using updateIPNSRecord_demo by (simp add: publishLog_def)
  have sq: "sequenceNumbers publishLog = [1700000000000]" by (simp add: publishLog_def)
  have now: "dateNow demoEnv (publishLog @ [CreateHelia]) = 1700000000000"
    by (simp add: demoEnv_def)
  have h: "createHeliaHTTP demoEnv publishLog = Inr (Helia 1)" by (simp add: demoEnv_def)
  have k1: "uint8ArrayFromString demoEnv ''ed'' = Inr [1]" by (simp add: demoEnv_def)
  have k2: "privateKeyFromProtobuf demoEnv [1] = Inr ed25519Key" by (simp add: demoEnv_def)
  have k3: "keyType ed25519Key = ''Ed25519''" by (simp add: ed25519Key_def)
  have c: "cidParse demoEnv ''bafydemo'' = Inr (CID [9])" by (simp add: demoEnv_def)
  have sign: "createIPNSRecord demoEnv (publishLog @ [CreateHelia]) ed25519Key (CID [9])
                (dateNow demoEnv (publishLog @ [CreateHelia])) DEFAULT_LIFETIME_MS
                (DEFAULT_TTL_MS * 1000000) = Inr (IPNSRecord [0])"
    by (simp add: demoEnv_def)
  have m: "marshalIPNSRecord demoEnv (IPNSRecord [0]) = Inr [5]" by (simp add: demoEnv_def)
  have mh: "toMultihash demoEnv (publicKey ed25519Key) = Inr [1, 2, 3]"
    by (simp add: demoEnv_def ed25519Key_def)
  have rk: "multihashToIPNSRoutingKey demoEnv [1, 2, 3] = Inr [47, 1, 2, 3]"
    by (simp add: demoEnv_def)
  have put: "routingPut demoEnv (publishLog @ [CreateHelia,
            CreateIPNSRecord ed25519Key (CID [9]) (dateNow demoEnv (publishLog @ [CreateHelia]))
              DEFAULT_LIFETIME_MS (DEFAULT_TTL_MS * 1000000)]) (Helia 1) [47, 1, 2, 3] [5] = None"
    by (simp add: demoEnv_def)
  note concl = updateIPNSRecord_sequence_is_clock [OF h k1 k2 k3 c sign m mh rk put]
  show ?thesis
    apply (intro conjI)
    subgoal by (rule run1)
    subgoal by (rule sq)
    subgoal by (rule now)
    subgoal by (rule h)
    subgoal by (rule k1)
    subgoal by (rule k2)
    subgoal by (rule k3)
    subgoal by (rule c)
    subgoal by (rule concl)
    done
qed

text \<open>
  Claim C5, as amended. For a key that decodes to another algorithm than Ed25519,
  \<^verbatim>\<open>resolveIPNSFromPrivateKey\<close> returns \<open>success = False\<close> with the error
  \<^verbatim>\<open>Only libp2p Ed25519 keys are supported\<close>, no name, and makes no request.
  \<^verbatim>\<open>updateIPNSRecord\<close> creates the Helia instance before it decodes the key: when the
  instance is created it returns that same error, with no name, after logging the error and
  stopping the instance, and nothing is signed or put; when the creation throws it returns
  the error of the creation instead.
\<close>

theorem unsupported_key_type:
  assumes "uint8ArrayFromString E key = Inr kb"
    and "privateKeyFromProtobuf E kb = Inr kp"
    and "keyType kp \<noteq> ''Ed25519''"
  shows "resolveIPNSFromPrivateKey E key t =
           (\<lparr>success = False, error = Some ''Only libp2p Ed25519 keys are supported'',
             ipnsName = None, ipfsHash = None\<rparr>,
            t @ [Console Err [S ''IPNS resolve failed:'',
                              X (Error ''Only libp2p Ed25519 keys are supported'')]])
       \<and> (\<forall>h. createHeliaHTTP E t = Inr h \<longrightarrow>
            (\<exists>tail. updateIPNSRecord E x key t =
               (\<lparr>success = False, error = Some ''Only libp2p Ed25519 keys are supported'',
                 ipnsName = None\<rparr>,
                t @ [CreateHelia,
                     Console Err [S ''IPNS update failed:'',
                                  X (Error ''Only libp2p Ed25519 keys are supported'')],
                     StopHelia h] @ tail)
               \<and> (\<forall>ev\<in>set tail. isWarning ev)))
       \<and> (\<forall>e. createHeliaHTTP E t = Inl e \<longrightarrow>
            updateIPNSRecord E x key t =
              (\<lparr>success = False, error = Some (errorMessage e ''Unknown IPNS update error''),
                ipnsName = None\<rparr>,
               t @ [CreateHelia, Console Err [S ''IPNS update failed:'', X e]]))"
proof -
  have res: "resolveIPNSFromPrivateKey E key t =
           (\<lparr>success = False, error = Some ''Only libp2p Ed25519 keys are supported'',
             ipnsName = None, ipfsHash = None\<rparr>,
            t @ [Console Err [S ''IPNS resolve failed:'',
                              X (Error ''Only libp2p Ed25519 keys are supported'')]])"
    using assms by (simp add: resolveIPNSFromPrivateKey_def resolveFailed_def)
  have upd: "\<exists>tail. updateIPNSRecord E x key t =
               (\<lparr>success = False, error = Some ''Only libp2p Ed25519 keys are supported'',
                 ipnsName = None\<rparr>,
                t @ [CreateHelia,
                     Console Err [S ''IPNS update failed:'',
                                  X (Error ''Only libp2p Ed25519 keys are supported'')],
                     StopHelia h] @ tail)
               \<and> (\<forall>ev\<in>set tail. isWarning ev)"
    if h: "createHeliaHTTP E t = Inr h" for h
  proof -
    have p: "publishRecord E h x key (t @ [CreateHelia]) =
               (Inl (Error ''Only libp2p Ed25519 keys are supported''), t @ [CreateHelia])"
      using assms by (simp add: publishRecord_def)
    from updateIPNSRecord_thrown [OF h p]
      finallyStop_Some [of E h "(t @ [CreateHelia]) @ [Console Err [S ''IPNS update failed:'',
                                  X (Error ''Only libp2p Ed25519 keys are supported'')]]"]
    show ?thesis by auto
  qed
  from res upd updateIPNSRecord_no_helia show ?thesis by blast
qed

theorem unsupported_key_type_counterexample:
  "uint8ArrayFromString noHeliaEnv ''rsa'' = Inr [2] \<and>
   privateKeyFromProtobuf noHeliaEnv [2] = Inr rsaKey \<and>
   keyType rsaKey = ''RSA'' \<and>
   updateIPNSRecord noHeliaEnv ''bafydemo'' ''rsa'' [] =
     (\<lparr>success = False, error = Some ''Helia could not start'', ipnsName = None\<rparr>,
      [CreateHelia, Console Err [S ''IPNS update failed:'', X (Error ''Helia could not start'')]])"
proof -
  have h: "createHeliaHTTP noHeliaEnv [] = Inl (Error ''Helia could not start'')"
    by (simp add: noHeliaEnv_def)
  from updateIPNSRecord_no_helia [OF h, of "''bafydemo''" "''rsa''"] show ?thesis
    by (simp add: noHeliaEnv_def demoEnv_def rsaKey_def)
qed

theorem unsupported_key_type_witness:
  "uint8ArrayFromString demoEnv ''rsa'' = Inr [2] \<and>
   privateKeyFromProtobuf demoEnv [2] = Inr rsaKey \<and>
   keyType rsaKey \<noteq> ''Ed25519'' \<and>
   createHeliaHTTP demoEnv [] = Inr (Helia 1) \<and>
   createHeliaHTTP noHeliaEnv [] = Inl (Error ''Helia could not start'') \<and>
   resolveIPNSFromPrivateKey demoEnv ''rsa'' [] =
     (\<lparr>success = False, error = Some ''Only libp2p Ed25519 keys are supported'',
       ipnsName = None, ipfsHash = None\<rparr>,
      [Console Err [S ''IPNS resolve failed:'', X (Error ''Only libp2p Ed25519 keys are supported'')]]) \<and>
   (\<exists>tail. updateIPNSRecord demoEnv ''bafydemo'' ''rsa'' [] =
      (\<lparr>success = False, error = Some ''Only libp2p Ed25519 keys are supported'', ipnsName = None\<rparr>,
       [CreateHelia,
        Console Err [S ''IPNS update failed:'', X (Error ''Only libp2p Ed25519 keys are supported'')],
        StopHelia (Helia 1)] @ tail)) \<and>
   updateIPNSRecord noHeliaEnv ''bafydemo'' ''rsa'' [] =
     (\<lparr>success = False, error = Some ''Helia could not start'', ipnsName = None\<rparr>,
      [CreateHelia, Console Err [S ''IPNS update failed:'', X (Error ''Helia could not start'')]])"
proof -
  have k1: "uint8ArrayFromString demoEnv ''rsa'' = Inr [2]" by (simp add: demoEnv_def)
  have k2: "privateKeyFromProtobuf demoEnv [2] = Inr rsaKey" by (simp add: demoEnv_def)
  have k3: "keyType rsaKey \<noteq> ''Ed25519''" by (simp add: rsaKey_def)
  have n1: "uint8ArrayFromString noHeliaEnv ''rsa'' = Inr [2]" by (simp add: noHeliaEnv_def demoEnv_def)
  have n2: "privateKeyFromProtobuf noHeliaEnv [2] = Inr rsaKey" by (simp add: noHeliaEnv_def demoEnv_def)
  have h1: "createHeliaHTTP demoEnv [] = Inr (Helia 1)" by (simp add: demoEnv_def)
  have h2: "createHeliaHTTP noHeliaEnv [] = Inl (Error ''Helia could not start'')"
    by (simp add: noHeliaEnv_def)
  from unsupported_key_type [OF k1 k2 k3, of "[]" "''bafydemo''"] h1
  have a: "resolveIPNSFromPrivateKey demoEnv ''rsa'' [] =
     (\<lparr>success = False, error = Some ''Only libp2p Ed25519 keys are supported'',
       ipnsName = None, ipfsHash = None\<rparr>,
      [Console Err [S ''IPNS resolve failed:'', X (Error ''Only libp2p Ed25519 keys are supported'')]]) \<and>
   (\<exists>tail. updateIPNSRecord demoEnv ''bafydemo'' ''rsa'' [] =
      (\<lparr>success = False, error = Some ''Only libp2p Ed25519 keys are supported'', ipnsName = None\<rparr>,
       [CreateHelia,
        Console Err [S ''IPNS update failed:'', X (Error ''Only libp2p Ed25519 keys are supported'')],
        StopHelia (Helia 1)] @ tail))"
    by auto
  from unsupported_key_type [OF n1 n2 k3, of "[]" "''bafydemo''"] h2
  have b: "updateIPNSRecord noHeliaEnv ''bafydemo'' ''rsa'' [] =
     (\<lparr>success = False, error = Some ''Helia could not start'', ipnsName = None\<rparr>,
      [CreateHelia, Console Err [S ''IPNS update failed:'', X (Error ''Helia could not start'')]])"
    by simp
  from k1 k2 k3 h1 h2 a b show ?thesis by blast
qed


section \<open>Uploading\<close>

lemma fetched_console [simp]: "fetched [Console lv a] = []"
  by simp




lemma getAllPinnedObjects_log:
  "getAllPinnedObjects E k t = (x, t1) \<Longrightarrow> \<exists>l. t1 = t @ l"
  by (auto simp: getAllPinnedObjects_def split: sum.splits if_splits)


































text \<open>
  Claim C9. After the upload callback returned \<open>ipfsResult\<close>, \<^verbatim>\<open>uploadAndUpdateIPNS\<close>
  calls \<^verbatim>\<open>updateIPNSRecord\<close> exactly when the result has \<open>success = True\<close> and a
  non-empty hash and the environment config exists and has a non-empty
  \<^verbatim>\<open>ipnsPrivateKey\<close>. Then the call is made on that hash and key from the log the
  upload left (it begins by creating the Helia instance) and its result is returned as
  \<^verbatim>\<open>ipnsResult\<close>. Otherwise the returned value holds \<^verbatim>\<open>ipfsResult\<close> alone and the
  log is the one the upload left: nothing is published. A callback that throws makes the
  function throw, also without any publish.
\<close>

theorem uploadAndUpdateIPNS_publishes_iff:
  assumes "uploadToIPFS config n (Some k) t = (outcome, t1)"
  shows "(\<forall>ipfsResult hash c privateKey.
            outcome = Inr ipfsResult \<and>
            success ipfsResult \<and> ipfsHashU ipfsResult = Some hash \<and> hash \<noteq> [] \<and>
            environmentConfig = Some c \<and> ipnsPrivateKey c = Some privateKey \<and> privateKey \<noteq> [] \<longrightarrow>
            (\<exists>ipnsResult l.
               updateIPNSRecord E hash privateKey t1 = (ipnsResult, t1 @ CreateHelia # l) \<and>
               uploadAndUpdateIPNS E config n environmentConfig k uploadToIPFS t =
                 (Inr (ipfsResult, Some ipnsResult), t1 @ CreateHelia # l)))
       \<and> (\<forall>ipfsResult.
            outcome = Inr ipfsResult \<and>
            \<not> (\<exists>hash c privateKey.
               success ipfsResult \<and> ipfsHashU ipfsResult = Some hash \<and> hash \<noteq> [] \<and>
               environmentConfig = Some c \<and> ipnsPrivateKey c = Some privateKey \<and> privateKey \<noteq> []) \<longrightarrow>
            uploadAndUpdateIPNS E config n environmentConfig k uploadToIPFS t =
              (Inr (ipfsResult, None), t1))
       \<and> (\<forall>e. outcome = Inl e \<longrightarrow>
            uploadAndUpdateIPNS E config n environmentConfig k uploadToIPFS t = (Inl e, t1))"
proof -
  have yes: "\<exists>ipnsResult l.
               updateIPNSRecord E hash privateKey t1 = (ipnsResult, t1 @ CreateHelia # l) \<and>
               uploadAndUpdateIPNS E config n environmentConfig k uploadToIPFS t =
                 (Inr (ipfsResult, Some ipnsResult), t1 @ CreateHelia # l)"
    if c: "outcome = Inr ipfsResult" "success ipfsResult" "ipfsHashU ipfsResult = Some hash"
       "hash \<noteq> []" "environmentConfig = Some c" "ipnsPrivateKey c = Some privateKey"
       "privateKey \<noteq> []"
    for ipfsResult hash c privateKey
  proof -
    obtain ipnsResult t2 where run: "updateIPNSRecord E hash privateKey t1 = (ipnsResult, t2)"
      by (metis surj_pair)
    from updateIPNSRecord_begins [OF run] obtain l where t2: "t2 = t1 @ CreateHelia # l" by blast
    from assms c run have "uploadAndUpdateIPNS E config n environmentConfig k uploadToIPFS t =
                 (Inr (ipfsResult, Some ipnsResult), t2)"
      by (simp add: uploadAndUpdateIPNS_def getIPNSPrivateKeyFromConfig_def)
    with run t2 show ?thesis by blast
  qed
  have no: "uploadAndUpdateIPNS E config n environmentConfig k uploadToIPFS t =
              (Inr (ipfsResult, None), t1)"
    if "outcome = Inr ipfsResult"
       "\<not> (\<exists>hash c privateKey.
               success ipfsResult \<and> ipfsHashU ipfsResult = Some hash \<and> hash \<noteq> [] \<and>
               environmentConfig = Some c \<and> ipnsPrivateKey c = Some privateKey \<and> privateKey \<noteq> [])"
    for ipfsResult
    using assms that
    by (auto simp: uploadAndUpdateIPNS_def getIPNSPrivateKeyFromConfig_def
             split: option.splits if_splits)
  have thrown: "uploadAndUpdateIPNS E config n environmentConfig k uploadToIPFS t = (Inl e, t1)"
    if "outcome = Inl e" for e
    using assms that by (simp add: uploadAndUpdateIPNS_def)
  from yes no thrown show ?thesis by blast
qed

theorem uploadAndUpdateIPNS_publishes_iff_witness:
  "storeOk (JObj []) ''prod'' (Some ''key'') [] =
     (Inr \<lparr>success = True, error = None, ipfsHashU = Some ''bafydemo''\<rparr>,
      [Fetch (putObjectRequest ''key'' (envFileName ''prod'') ''{}'')]) \<and>
   ipnsPrivateKey prodConfig = Some ''ed'' \<and>
   (\<exists>ipnsResult l.
      updateIPNSRecord demoEnv ''bafydemo'' ''ed''
          [Fetch (putObjectRequest ''key'' (envFileName ''prod'') ''{}'')]
        = (ipnsResult, [Fetch (putObjectRequest ''key'' (envFileName ''prod'') ''{}'')] @ CreateHelia # l) \<and>
      uploadAndUpdateIPNS demoEnv (JObj []) ''prod'' (Some prodConfig) ''key'' storeOk [] =
        (Inr (\<lparr>success = True, error = None, ipfsHashU = Some ''bafydemo''\<rparr>, Some ipnsResult),
         [Fetch (putObjectRequest ''key'' (envFileName ''prod'') ''{}'')] @ CreateHelia # l)) \<and>
   uploadAndUpdateIPNS demoEnv (JObj []) ''prod'' None ''key'' storeOk [] =
     (Inr (\<lparr>success = True, error = None, ipfsHashU = Some ''bafydemo''\<rparr>, None),
      [Fetch (putObjectRequest ''key'' (envFileName ''prod'') ''{}'')]) \<and>
   uploadAndUpdateIPNS demoEnv (JObj []) ''prod'' (Some prodConfig) ''key'' storeFailed [] =
     (Inr (\<lparr>success = False, error = Some ''QuickNode upload failed: 503 - Service Unavailable'',
            ipfsHashU = None\<rparr>, None),
      [Fetch (putObjectRequest ''key'' (envFileName ''prod'') ''{}'')]) \<and>
   uploadAndUpdateIPNS demoEnv (JObj []) ''prod'' (Some prodConfig) ''key'' storeThrows [] =
     (Inl (Error ''Failed to fetch''), [])"
proof -
  have ok: "storeOk (JObj []) ''prod'' (Some ''key'') [] =
     (Inr \<lparr>success = True, error = None, ipfsHashU = Some ''bafydemo''\<rparr>,
      [Fetch (putObjectRequest ''key'' (envFileName ''prod'') ''{}'')])"
    by (simp add: storeOk_def)
  have failed: "storeFailed (JObj []) ''prod'' (Some ''key'') [] =
     (Inr \<lparr>success = False, error = Some ''QuickNode upload failed: 503 - Service Unavailable'',
           ipfsHashU = None\<rparr>,
      [Fetch (putObjectRequest ''key'' (envFileName ''prod'') ''{}'')])"
    by (simp add: storeFailed_def)
  have throws: "storeThrows (JObj []) ''prod'' (Some ''key'') [] = (Inl (Error ''Failed to fetch''), [])"
    by (simp add: storeThrows_def)
  have pk: "ipnsPrivateKey prodConfig = Some ''ed''" by (simp add: prodConfig_def)
  from uploadAndUpdateIPNS_publishes_iff
    [where uploadToIPFS = storeOk and config = "JObj []" and n = "''prod''" and k = "''key''"
       and t = "[]" and environmentConfig = "Some prodConfig" and E = demoEnv, OF ok] pk
  have a: "\<exists>ipnsResult l.
      updateIPNSRecord demoEnv ''bafydemo'' ''ed''
          [Fetch (putObjectRequest ''key'' (envFileName ''prod'') ''{}'')]
        = (ipnsResult, [Fetch (putObjectRequest ''key'' (envFileName ''prod'') ''{}'')] @ CreateHelia # l) \<and>
      uploadAndUpdateIPNS demoEnv (JObj []) ''prod'' (Some prodConfig) ''key'' storeOk [] =
        (Inr (\<lparr>success = True, error = None, ipfsHashU = Some ''bafydemo''\<rparr>, Some ipnsResult),
         [Fetch (putObjectRequest ''key'' (envFileName ''prod'') ''{}'')] @ CreateHelia # l)"
    by simp
  from uploadAndUpdateIPNS_publishes_iff
    [where uploadToIPFS = storeOk and config = "JObj []" and n = "''prod''" and k = "''key''"
       and t = "[]" and environmentConfig = "None" and E = demoEnv, OF ok]
  have b: "uploadAndUpdateIPNS demoEnv (JObj []) ''prod'' None ''key'' storeOk [] =
     (Inr (\<lparr>success = True, error = None, ipfsHashU = Some ''bafydemo''\<rparr>, None),
      [Fetch (putObjectRequest ''key'' (envFileName ''prod'') ''{}'')])"
    by simp
  from uploadAndUpdateIPNS_publishes_iff
    [where uploadToIPFS = storeFailed and config = "JObj []" and n = "''prod''" and k = "''key''"
       and t = "[]" and environmentConfig = "Some prodConfig" and E = demoEnv, OF failed]
  have c: "uploadAndUpdateIPNS demoEnv (JObj []) ''prod'' (Some prodConfig) ''key'' storeFailed [] =
     (Inr (\<lparr>success = False, error = Some ''QuickNode upload failed: 503 - Service Unavailable'',
            ipfsHashU = None\<rparr>, None),
      [Fetch (putObjectRequest ''key'' (envFileName ''prod'') ''{}'')])"
    by simp
  from uploadAndUpdateIPNS_publishes_iff
    [where uploadToIPFS = storeThrows and config = "JObj []" and n = "''prod''" and k = "''key''"
       and t = "[]" and environmentConfig = "Some prodConfig" and E = demoEnv, OF throws]
  have d: "uploadAndUpdateIPNS demoEnv (JObj []) ''prod'' (Some prodConfig) ''key'' storeThrows [] =
     (Inl (Error ''Failed to fetch''), [])"
    by simp
  from ok pk a b c d show ?thesis by blast
qed

end
